theory Spec2Isabelle
  imports Main "HOL-Library.Multiset" "HOL-Library.Product_Lexorder" "HOL-Library.Option_ord"
    "HOL-Library.Word" "HOL-Library.Sublist"
begin

section \<open>Errors\<close>

text \<open>
  The Go code reports failures as \<^verbatim>\<open>error\<close> values; \<^verbatim>\<open>syntaxError(...)\<close> builds a
  syntax error from a format string, the lookup services of the context report their own
  errors, and a run-time panic (nil dereference, index out of range, a reflect call on the
  wrong kind) unwinds the whole call. All three are values here; the message of a syntax
  error is kept without the formatted arguments.
\<close>

datatype error = SyntaxError string | LookupError string | Panic string

type_synonym 'a result = "error + 'a"

definition bind_result :: "'a result \<Rightarrow> ('a \<Rightarrow> 'b result) \<Rightarrow> 'b result" where
  "bind_result r f = (case r of Inl e \<Rightarrow> Inl e | Inr x \<Rightarrow> f x)"

section \<open>options.go: the directive parser\<close>

record fieldOptions =
  universal :: bool
  application :: bool
  explicit :: bool
  indefinite :: bool
  optional :: bool
  unique :: bool
  set_opt :: bool
  tag :: "int option"
  defaultValue :: "int option"
  choice :: "string option"
  choices :: "string option"
  variant :: "string option"

text \<open>\<^verbatim>\<open>var opts fieldOptions\<close>: the zero value of the struct.\<close>

definition zeroOptions :: fieldOptions where
  "zeroOptions = \<lparr> universal = False, application = False, explicit = False,
     indefinite = False, optional = False, unique = False, set_opt = False,
     tag = None, defaultValue = None, choice = None, choices = None, variant = None \<rparr>"

text \<open>\<^verbatim>\<open>validate\<close> returns the first violated constraint, or nil.\<close>

definition validate :: "fieldOptions \<Rightarrow> error option" where
  "validate opts =
     (if universal opts \<and> tag opts = None then
        Some (SyntaxError ''tag must be specified when universal is used'')
      else if application opts \<and> tag opts = None then
        Some (SyntaxError ''tag must be specified when application is used'')
      else if (case tag opts of None \<Rightarrow> False | Some t \<Rightarrow> t < 0) then
        Some (SyntaxError ''tag cannot be negative'')
      else if (case choice opts of None \<Rightarrow> False | Some c \<Rightarrow> c = []) then
        Some (SyntaxError ''choice cannot be empty'')
      else None)"

text \<open>\<^verbatim>\<open>strings.Split(s, sep)\<close> for a one-byte separator: always at least one piece.\<close>

fun strings_Split :: "char \<Rightarrow> string \<Rightarrow> string list" where
  "strings_Split c [] = [[]]"
| "strings_Split c (x # xs) =
     (if x = c then [] # strings_Split c xs
      else (case strings_Split c xs of
              [] \<Rightarrow> [[x]]
            | y # ys \<Rightarrow> (x # y) # ys))"

text \<open>
  \<^verbatim>\<open>strings.TrimSpace\<close> removes the leading and the trailing white space, rune by
  rune, as \<^verbatim>\<open>unicode.IsSpace\<close> defines it. Strings are byte lists, so the white-space
  runes are listed by their UTF-8 encodings: tab, line feed, vertical tab, form feed,
  carriage return, space, U+0085, U+00A0, U+1680, U+2000 to U+200A, U+2028, U+2029,
  U+202F, U+205F and U+3000. A well-formed encoding at the start of a string decodes to
  its rune, and so does one at the end (the last rune starts at the nearest byte that is
  not a continuation byte), so a rune is white space exactly when one of these encodings
  is a prefix, or a suffix, of the string.
\<close>

definition spaceRunes :: "string list" where
  "spaceRunes =
     [[CHR 0x09], [CHR 0x0A], [CHR 0x0B], [CHR 0x0C], [CHR 0x0D], [CHR 0x20],
      [CHR 0xC2, CHR 0x85], [CHR 0xC2, CHR 0xA0],
      [CHR 0xE1, CHR 0x9A, CHR 0x80],
      [CHR 0xE2, CHR 0x80, CHR 0x80], [CHR 0xE2, CHR 0x80, CHR 0x81],
      [CHR 0xE2, CHR 0x80, CHR 0x82], [CHR 0xE2, CHR 0x80, CHR 0x83],
      [CHR 0xE2, CHR 0x80, CHR 0x84], [CHR 0xE2, CHR 0x80, CHR 0x85],
      [CHR 0xE2, CHR 0x80, CHR 0x86], [CHR 0xE2, CHR 0x80, CHR 0x87],
      [CHR 0xE2, CHR 0x80, CHR 0x88], [CHR 0xE2, CHR 0x80, CHR 0x89],
      [CHR 0xE2, CHR 0x80, CHR 0x8A],
      [CHR 0xE2, CHR 0x80, CHR 0xA8], [CHR 0xE2, CHR 0x80, CHR 0xA9],
      [CHR 0xE2, CHR 0x80, CHR 0xAF], [CHR 0xE2, CHR 0x81, CHR 0x9F],
      [CHR 0xE3, CHR 0x80, CHR 0x80]]"

text \<open>The rest of a string after a given prefix, and after the first of several prefixes.\<close>

fun stripPrefix :: "string \<Rightarrow> string \<Rightarrow> string option" where
  "stripPrefix [] s = Some s"
| "stripPrefix (p # ps) [] = None"
| "stripPrefix (p # ps) (c # cs) = (if p = c then stripPrefix ps cs else None)"

fun stripOne :: "string list \<Rightarrow> string \<Rightarrow> string option" where
  "stripOne [] s = None"
| "stripOne (p # ps) s =
     (case stripPrefix p s of Some r \<Rightarrow> Some r | None \<Rightarrow> stripOne ps s)"

text \<open>
  Removing leading runes while one is found; every rune has at least one byte, so the
  length of the string bounds the number of rounds.
\<close>

fun trimRunes :: "nat \<Rightarrow> string list \<Rightarrow> string \<Rightarrow> string" where
  "trimRunes 0 runes s = s"
| "trimRunes (Suc n) runes s =
     (case stripOne runes s of None \<Rightarrow> s | Some r \<Rightarrow> trimRunes n runes r)"

definition trimLeft :: "string \<Rightarrow> string" where
  "trimLeft s = trimRunes (length s) spaceRunes s"

definition trimRight :: "string \<Rightarrow> string" where
  "trimRight s = rev (trimRunes (length s) (map rev spaceRunes) (rev s))"

definition strings_TrimSpace :: "string \<Rightarrow> string" where
  "strings_TrimSpace s = trimRight (trimLeft s)"

text \<open>
  \<^verbatim>\<open>strconv.Atoi\<close>: an optional sign, then one or more decimal digits, and the value
  must fit the 64-bit \<^verbatim>\<open>int\<close>.
\<close>

definition isDigit :: "char \<Rightarrow> bool" where
  "isDigit c = (48 \<le> (of_char c :: nat) \<and> (of_char c :: nat) \<le> 57)"

definition digitsValue :: "string \<Rightarrow> nat" where
  "digitsValue ds = foldl (\<lambda>a c. 10 * a + ((of_char c :: nat) - 48)) 0 ds"

definition strconv_Atoi :: "string \<Rightarrow> int option" where
  "strconv_Atoi s =
     (let (neg, ds) = (case s of
                         [] \<Rightarrow> (False, [])
                       | c # r \<Rightarrow> if c = CHR ''-'' then (True, r)
                                  else if c = CHR ''+'' then (False, r)
                                  else (False, s));
          v = (if neg then - int (digitsValue ds) else int (digitsValue ds))
      in if ds = [] \<or> \<not> list_all isDigit ds then None
         else if v < - (2 ^ 63) \<or> 2 ^ 63 - 1 < v then None
         else Some v)"

text \<open>\<^verbatim>\<open>parseBoolOption\<close> just checks that no argument was given.\<close>

definition parseBoolOption :: "string list \<Rightarrow> bool result" where
  "parseBoolOption args =
     (if length args > 1 then Inl (SyntaxError ''option does not have arguments'')
      else Inr True)"

definition parseIntOption :: "string list \<Rightarrow> int option result" where
  "parseIntOption args =
     (if length args \<noteq> 2 then Inl (SyntaxError ''option does not have arguments'')
      else (case strconv_Atoi (args ! 1) of
              None \<Rightarrow> Inl (SyntaxError ''invalid value for option'')
            | Some num \<Rightarrow> Inr (Some num)))"

definition parseStringOption :: "string list \<Rightarrow> string option result" where
  "parseStringOption args =
     (if length args \<noteq> 2 then Inl (SyntaxError ''option does not have arguments'')
      else Inr (Some (args ! 1)))"

text \<open>
  \<^verbatim>\<open>parseOption\<close> reads \<^verbatim>\<open>args[0]\<close>, which panics on an empty slice, and stores the
  parsed argument in the field named by it; the empty name is ignored.
\<close>

definition parseOption :: "fieldOptions \<Rightarrow> string list \<Rightarrow> fieldOptions result" where
  "parseOption opts args =
     (case args of
        [] \<Rightarrow> Inl (Panic ''index out of range'')
      | a # _ \<Rightarrow>
          if a = '''' then Inr opts
          else if a = ''universal'' then
            bind_result (parseBoolOption args) (\<lambda>b. Inr (opts\<lparr>universal := b\<rparr>))
          else if a = ''application'' then
            bind_result (parseBoolOption args) (\<lambda>b. Inr (opts\<lparr>application := b\<rparr>))
          else if a = ''explicit'' then
            bind_result (parseBoolOption args) (\<lambda>b. Inr (opts\<lparr>explicit := b\<rparr>))
          else if a = ''indefinite'' then
            bind_result (parseBoolOption args) (\<lambda>b. Inr (opts\<lparr>indefinite := b\<rparr>))
          else if a = ''optional'' then
            bind_result (parseBoolOption args) (\<lambda>b. Inr (opts\<lparr>optional := b\<rparr>))
          else if a = ''unique'' then
            bind_result (parseBoolOption args) (\<lambda>b. Inr (opts\<lparr>unique := b\<rparr>))
          else if a = ''set'' then
            bind_result (parseBoolOption args) (\<lambda>b. Inr (opts\<lparr>set_opt := b\<rparr>))
          else if a = ''tag'' then
            bind_result (parseIntOption args) (\<lambda>v. Inr (opts\<lparr>tag := v\<rparr>))
          else if a = ''default'' then
            bind_result (parseIntOption args) (\<lambda>v. Inr (opts\<lparr>defaultValue := v\<rparr>))
          else if a = ''choice'' then
            bind_result (parseStringOption args) (\<lambda>v. Inr (opts\<lparr>choice := v\<rparr>))
          else if a = ''choices'' then
            bind_result (parseStringOption args) (\<lambda>v. Inr (opts\<lparr>choices := v\<rparr>))
          else if a = ''variant'' then
            bind_result (parseStringOption args) (\<lambda>v. Inr (opts\<lparr>variant := v\<rparr>))
          else Inl (SyntaxError ''Invalid option''))"

text \<open>The loop of \<^verbatim>\<open>parseOptions\<close> over the comma-separated tokens.\<close>

fun parseTokens :: "fieldOptions \<Rightarrow> string list \<Rightarrow> fieldOptions result" where
  "parseTokens opts [] = Inr opts"
| "parseTokens opts (token # rest) =
     (case parseOption opts (strings_Split (CHR '':'') (strings_TrimSpace token)) of
        Inl err \<Rightarrow> Inl err
      | Inr opts' \<Rightarrow> parseTokens opts' rest)"

text \<open>
  \<^verbatim>\<open>parseOptions\<close>: \<open>Inr None\<close> is the nil pointer returned for the ignore tag
  \<^verbatim>\<open>"-"\<close>.
\<close>

definition parseOptions :: "string \<Rightarrow> fieldOptions option result" where
  "parseOptions s =
     (if s = ''-'' then Inr None
      else (case parseTokens zeroOptions (strings_Split (CHR '','') s) of
              Inl err \<Rightarrow> Inl err
            | Inr opts \<Rightarrow> (case validate opts of
                             Some err \<Rightarrow> Inl err
                           | None \<Rightarrow> Inr (Some opts))))"

section \<open>Values, types and TLV nodes\<close>

text \<open>\<^verbatim>\<open>reflect.Kind\<close>.\<close>

datatype kind = KInvalid | KBool | KInt | KInt8 | KInt16 | KInt32 | KInt64
  | KUint | KUint8 | KUint16 | KUint32 | KUint64 | KUintptr | KFloat32 | KFloat64
  | KComplex64 | KComplex128 | KArray | KChan | KFunc | KInterface | KMap | KPointer
  | KSlice | KString | KStruct | KUnsafePointer

text \<open>
  \<^verbatim>\<open>reflect.Type\<close>. The eight designated types that \<^verbatim>\<open>encodeValue\<close> compares
  \<^verbatim>\<open>value.Type()\<close> with are constructors of their own; every other type has a name, a
  kind and, for arrays and slices, the kind of its elements (\<^verbatim>\<open>Elem().Kind()\<close>).
\<close>

datatype gotype = bigIntType | bitStringType | oidType | objDescriptorType
  | utf8StringType | nullType | enumType | utcTimeType
  | OtherType string kind kind

text \<open>
  \<^verbatim>\<open>reflect.Value\<close>. A struct carries its fields in declaration order, each with its
  name, the text of its \<^verbatim>\<open>asn1\<close> struct tag and its value. A slice knows whether it is
  nil. \<open>VInterface\<close> is a value of interface kind, nil or holding a concrete value.
  \<open>VOpaque\<close> is a value of any other shape (pointer, float, map, ...): its payload is
  opaque, and 0 stands for the zero value of the type.
\<close>

datatype "value" =
    VInvalid
  | VBool gotype bool
  | VString gotype string
  | VInt gotype int
  | VUint gotype nat
  | VOpaque gotype nat
  | VStruct gotype "(string \<times> string \<times> value) list"
  | VSeq gotype bool "value list"
  | VInterface gotype "value option"

type_synonym structField = "string \<times> string \<times> value"

text \<open>\<^verbatim>\<open>value.Type()\<close> panics on the zero \<^verbatim>\<open>reflect.Value\<close>.\<close>

fun typeOf :: "value \<Rightarrow> gotype result" where
  "typeOf VInvalid = Inl (Panic ''call of reflect.Value.Type on zero Value'')"
| "typeOf (VBool t _) = Inr t"
| "typeOf (VString t _) = Inr t"
| "typeOf (VInt t _) = Inr t"
| "typeOf (VUint t _) = Inr t"
| "typeOf (VOpaque t _) = Inr t"
| "typeOf (VStruct t _) = Inr t"
| "typeOf (VSeq t _ _) = Inr t"
| "typeOf (VInterface t _) = Inr t"

text \<open>
  \<^verbatim>\<open>value.Kind()\<close>, used by \<^verbatim>\<open>encodeValue\<close> only once the designated types have been
  ruled out.
\<close>

fun kindOfType :: "gotype \<Rightarrow> kind" where
  "kindOfType (OtherType _ k _) = k"
| "kindOfType _ = KInvalid"

fun elemKind :: "gotype \<Rightarrow> kind" where
  "elemKind (OtherType _ _ k) = k"
| "elemKind _ = KInvalid"

definition kindOf :: "value \<Rightarrow> kind" where
  "kindOf v = (case typeOf v of Inl _ \<Rightarrow> KInvalid | Inr t \<Rightarrow> kindOfType t)"

text \<open>
  Modelled from the spec: \<^verbatim>\<open>getActualType\<close> is not among the source files; it strips
  the interface indirection to reach the concrete value.
\<close>

fun getActualType :: "value \<Rightarrow> value" where
  "getActualType (VInterface t (Some v)) = v"
| "getActualType v = v"

text \<open>
  \<^verbatim>\<open>reflect.ValueOf(v.Interface())\<close>, as \<^verbatim>\<open>EncodeWithOptions\<close> receives an element: the
  concrete value, and the zero \<^verbatim>\<open>reflect.Value\<close> for a nil interface.
\<close>

fun valueOfInterface :: "value \<Rightarrow> value" where
  "valueOfInterface (VInterface t None) = VInvalid"
| "valueOfInterface (VInterface t (Some v)) = v"
| "valueOfInterface v = v"

text \<open>
  \<^verbatim>\<open>isEmpty\<close>: an invalid value is empty; otherwise the value is compared
  (\<^verbatim>\<open>reflect.DeepEqual\<close>) with the zero value of its type. The zero struct has zero
  fields, the zero slice is nil, the zero array has zero elements, the zero interface is
  nil.
\<close>

fun isEmpty :: "value \<Rightarrow> bool"
  and isEmptyFields :: "structField list \<Rightarrow> bool"
  and isEmptyElems :: "value list \<Rightarrow> bool" where
  "isEmpty VInvalid = True"
| "isEmpty (VBool _ b) = (\<not> b)"
| "isEmpty (VString _ s) = (s = [])"
| "isEmpty (VInt _ i) = (i = 0)"
| "isEmpty (VUint _ n) = (n = 0)"
| "isEmpty (VOpaque _ p) = (p = 0)"
| "isEmpty (VStruct _ fs) = isEmptyFields fs"
| "isEmpty (VSeq t isnil vs) = (if kindOfType t = KSlice then isnil else isEmptyElems vs)"
| "isEmpty (VInterface _ None) = True"
| "isEmpty (VInterface _ (Some _)) = False"
| "isEmptyFields [] = True"
| "isEmptyFields (f # fs) = (isEmpty (snd (snd f)) \<and> isEmptyFields fs)"
| "isEmptyElems [] = True"
| "isEmptyElems (v # vs) = (isEmpty v \<and> isEmptyElems vs)"

text \<open>
  \<^verbatim>\<open>value.String()\<close>: the string itself for a value of kind String, and
  \<^verbatim>\<open>"<T Value>"\<close> with the type's name for every other kind.
\<close>

text \<open>
  Modelled from the spec: the designated types are declared outside the source files;
  their names below are those of the Go types the spec lists.
\<close>

fun typeName :: "gotype \<Rightarrow> string" where
  "typeName bigIntType = ''*big.Int''"
| "typeName bitStringType = ''asn1.BitString''"
| "typeName oidType = ''asn1.Oid''"
| "typeName objDescriptorType = ''asn1.ObjectDescriptor''"
| "typeName utf8StringType = ''asn1.UTF8String''"
| "typeName nullType = ''asn1.Null''"
| "typeName enumType = ''asn1.Enum''"
| "typeName utcTimeType = ''time.Time''"
| "typeName (OtherType n _ _) = n"

fun value_String :: "value \<Rightarrow> string" where
  "value_String (VString _ s) = s"
| "value_String VInvalid = ''<invalid Value>''"
| "value_String v =
     (case typeOf v of Inl _ \<Rightarrow> ''<invalid Value>''
      | Inr t \<Rightarrow> ''<'' @ typeName t @ '' Value>'')"

type_synonym byte = "8 word"

text \<open>The TLV node \<^verbatim>\<open>rawValue\<close>.\<close>

record rawValue =
  Class :: nat
  Tag :: nat
  Constructed :: bool
  Indefinite :: bool
  Content :: "byte list"

text \<open>\<^verbatim>\<open>&rawValue{}\<close>.\<close>

definition zeroRawValue :: rawValue where
  "zeroRawValue = \<lparr> Class = 0, Tag = 0, Constructed = False, Indefinite = False,
     Content = [] \<rparr>"

text \<open>
  Modelled from the spec: the class and universal tag numbers are declared outside the
  source files; they are the X.690 numbers the spec names (classes in the order universal,
  application, context-specific, private; INTEGER is 2, SEQUENCE 16, SET 17).
\<close>

definition classUniversal :: nat where "classUniversal = 0"
definition classApplication :: nat where "classApplication = 1"
definition classContextSpecific :: nat where "classContextSpecific = 2"
definition classPrivate :: nat where "classPrivate = 3"

definition tagBoolean :: nat where "tagBoolean = 1"
definition tagInteger :: nat where "tagInteger = 2"
definition tagBitString :: nat where "tagBitString = 3"
definition tagOctetString :: nat where "tagOctetString = 4"
definition tagNull :: nat where "tagNull = 5"
definition tagOid :: nat where "tagOid = 6"
definition tagObjDescriptor :: nat where "tagObjDescriptor = 7"
definition tagReal :: nat where "tagReal = 9"
definition tagEnum :: nat where "tagEnum = 10"
definition tagUTF8String :: nat where "tagUTF8String = 12"
definition tagSequence :: nat where "tagSequence = 16"
definition tagSet :: nat where "tagSet = 17"
definition tagUtcTime :: nat where "tagUtcTime = 23"

section \<open>The encoding context\<close>

text \<open>The content encoders \<^verbatim>\<open>encodeValue\<close> chooses from (\<^verbatim>\<open>encoderFunction\<close>).\<close>

datatype encoderFunction = EncodeBigInt | EncodeBitString | EncodeOid
  | EncodeObjectDescriptor | EncodeUTF8String | EncodeNull | EncodeInt | EncodeUTCTime
  | EncodeBool | EncodeString | EncodeUint | EncodeReal | EncodeOctetString
  | EncodeStruct | EncodeStructAsSet | EncodeChoices string | EncodeSlice

record choiceEntry =
  entry_class :: nat
  entry_tag :: nat
  entry_opts :: fieldOptions

record variantEntry =
  variant_opts :: fieldOptions

text \<open>
  \<^verbatim>\<open>Context\<close>. The mode flag \<^verbatim>\<open>ctx.der.encoding\<close> is a field. The services of the
  context that the two source files call but do not define are fields too: the lookups in
  the choice and variant tables, the construction of a default value, the content encoders
  of the primitive types, and the byte serialization of a TLV node. Two services of the Go
  library are fields as well, since their tables and code are not reproduced here:
  \<open>upperFirst name\<close> is \<^verbatim>\<open>unicode.IsUpper([]rune(name)[0])\<close>, and \<open>sortLong\<close> is what
  \<^verbatim>\<open>sort.Sort\<close> does to more than six nodes (see \<open>sort_Sort\<close> below).
\<close>

record Context =
  der_encoding :: bool
  getChoiceByType :: "string \<Rightarrow> gotype \<Rightarrow> choiceEntry result"
  getVariant :: "string \<Rightarrow> string \<Rightarrow> string \<Rightarrow> variantEntry result"
  newDefaultValue :: "gotype \<Rightarrow> fieldOptions \<Rightarrow> value result"
  primitiveEncoder :: "encoderFunction \<Rightarrow> value \<Rightarrow> byte list result"
  serialize :: "rawValue \<Rightarrow> byte list result"
  upperFirst :: "string \<Rightarrow> bool"
  sortLong :: "rawValue list \<Rightarrow> rawValue list"

text \<open>\<^verbatim>\<open>isFieldExported\<close> checks that the field name starts with a capital letter.\<close>

definition isFieldExported :: "Context \<Rightarrow> structField \<Rightarrow> bool" where
  "isFieldExported ctx f = upperFirst ctx (fst f)"

text \<open>
  Modelled from the spec: \<^verbatim>\<open>(*rawValue).encode\<close> is not among the source files. An
  absent result (the nil pointer) is dropped by the caller: it serializes to no bytes; a
  node is serialized by the primitive of the context.
\<close>

definition rawValue_encode :: "Context \<Rightarrow> rawValue option \<Rightarrow> byte list result" where
  "rawValue_encode ctx raw =
     (case raw of None \<Rightarrow> Inr [] | Some r \<Rightarrow> serialize ctx r)"

section \<open>encode.go: post-processing\<close>

text \<open>
  The recursion of the encoder is bounded by fuel, the depth of calls still allowed:
  \<open>None\<close> says the fuel ran out. \<open>bindF\<close> chains two steps and stops at the first
  error.
\<close>

definition bindF :: "'a result option \<Rightarrow> ('a \<Rightarrow> 'b result option) \<Rightarrow> 'b result option" where
  "bindF m f = (case m of None \<Rightarrow> None | Some (Inl e) \<Rightarrow> Some (Inl e) | Some (Inr x) \<Rightarrow> f x)"

text \<open>\<^verbatim>\<open>uint(*opts.tag)\<close>: the conversion of the 64-bit int wraps.\<close>

definition uint_of_int :: "int \<Rightarrow> nat" where
  "uint_of_int i = nat (i mod 2 ^ 64)"

text \<open>A syntax error whose message formats \<^verbatim>\<open>value.Type()\<close>.\<close>

definition syntaxErrorOnType :: "value \<Rightarrow> string \<Rightarrow> error" where
  "syntaxErrorOnType v msg = (case typeOf v of Inl p \<Rightarrow> p | Inr _ \<Rightarrow> SyntaxError msg)"

text \<open>The first step of \<^verbatim>\<open>applyOptions\<close>: change sequence to set.\<close>

definition applySet :: "value \<Rightarrow> rawValue \<Rightarrow> fieldOptions \<Rightarrow> rawValue result" where
  "applySet v raw opts =
     (if set_opt opts then
        (if Class raw \<noteq> classUniversal \<or> Tag raw \<noteq> tagSequence then
           Inl (syntaxErrorOnType v ''Go type does not accept the flag set'')
         else Inr (raw\<lparr>Tag := tagSet\<rparr>))
      else Inr raw)"

text \<open>
  The steps of \<^verbatim>\<open>applyOptions\<close> after the choice: the enclosing tag, the tag, the
  class and the indefinite length.
\<close>

definition applyExplicit :: "Context \<Rightarrow> value \<Rightarrow> rawValue \<Rightarrow> fieldOptions \<Rightarrow> rawValue result" where
  "applyExplicit ctx v raw opts =
     (if explicit opts then
        (if tag opts = None then
           Inl (syntaxErrorOnType v ''invalid flag explicit without tag on Go type'')
         else (case rawValue_encode ctx (Some raw) of
                 Inl err \<Rightarrow> Inl err
               | Inr content \<Rightarrow> Inr (zeroRawValue\<lparr>Constructed := True, Content := content\<rparr>)))
      else Inr raw)"

definition applyTag :: "rawValue \<Rightarrow> fieldOptions \<Rightarrow> rawValue" where
  "applyTag raw opts =
     (let raw1 = (case tag opts of
                    None \<Rightarrow> raw
                  | Some t \<Rightarrow> raw\<lparr>Class := classContextSpecific, Tag := uint_of_int t\<rparr>);
          raw2 = (if universal opts then raw1\<lparr>Class := classUniversal\<rparr> else raw1)
      in if application opts then raw2\<lparr>Class := classApplication\<rparr> else raw2)"

definition applyIndefinite :: "value \<Rightarrow> rawValue \<Rightarrow> fieldOptions \<Rightarrow> rawValue result" where
  "applyIndefinite v raw opts =
     (if indefinite opts then
        (if \<not> Constructed raw then
           Inl (syntaxErrorOnType v ''invalid flag indefinite on Go type'')
         else Inr (raw\<lparr>Indefinite := True\<rparr>))
      else Inr raw)"

text \<open>
  \<^verbatim>\<open>applyOptions\<close>. In the choice step the error of the recursive call is assigned and
  never read: after a failed call \<^verbatim>\<open>raw\<close> is nil, and the assignment to
  \<^verbatim>\<open>raw.Class\<close> that follows dereferences it.
\<close>

fun applyOptions :: "nat \<Rightarrow> Context \<Rightarrow> value \<Rightarrow> rawValue \<Rightarrow> fieldOptions \<Rightarrow> rawValue result option" where
  "applyOptions 0 ctx v raw opts = None"
| "applyOptions (Suc n) ctx v raw opts =
     bindF (Some (applySet v raw opts)) (\<lambda>raw1.
     bindF (case choice opts of
              None \<Rightarrow> Some (Inr raw1)
            | Some c \<Rightarrow>
                bindF (Some (typeOf v)) (\<lambda>t.
                bindF (Some (getChoiceByType ctx c t)) (\<lambda>entry.
                  (case applyOptions n ctx v raw1 (entry_opts entry) of
                     None \<Rightarrow> None
                   | Some (Inl err) \<Rightarrow> Some (Inl (Panic ''nil pointer dereference''))
                   | Some (Inr r) \<Rightarrow>
                       Some (Inr (r\<lparr>Class := entry_class entry, Tag := entry_tag entry\<rparr>))))))
       (\<lambda>raw2.
     bindF (Some (applyExplicit ctx v raw2 opts)) (\<lambda>raw3.
     Some (applyIndefinite v (applyTag raw3 opts) opts))))"

text \<open>
  A directive set reduced to its \<^verbatim>\<open>set\<close> and \<^verbatim>\<open>choice\<close> directives. Applying it
  runs the first two steps of \<^verbatim>\<open>applyOptions\<close> and nothing else, so its result is the
  node as the \<^verbatim>\<open>explicit\<close> step finds it.
\<close>

definition setAndChoice :: "fieldOptions \<Rightarrow> fieldOptions" where
  "setAndChoice opts =
     opts\<lparr>universal := False, application := False, explicit := False,
          indefinite := False, tag := None\<rparr>"

section \<open>encode.go: the encoder\<close>

text \<open>
  The two switches of \<^verbatim>\<open>encodeValue\<close>: first on the designated types, then, when no
  encoder was chosen, on the kind. The result is the node with its tag set and the chosen
  encoder, if any. A slice or array under a \<^verbatim>\<open>choice\<close> directive takes its options from
  the choice table before \<^verbatim>\<open>choices\<close> is read.
\<close>

definition specialEncoder :: "gotype \<Rightarrow> (nat \<times> encoderFunction) option" where
  "specialEncoder objType =
     (case objType of
        bigIntType \<Rightarrow> Some (tagInteger, EncodeBigInt)
      | bitStringType \<Rightarrow> Some (tagBitString, EncodeBitString)
      | oidType \<Rightarrow> Some (tagOid, EncodeOid)
      | objDescriptorType \<Rightarrow> Some (tagObjDescriptor, EncodeObjectDescriptor)
      | utf8StringType \<Rightarrow> Some (tagUTF8String, EncodeUTF8String)
      | nullType \<Rightarrow> Some (tagNull, EncodeNull)
      | enumType \<Rightarrow> Some (tagEnum, EncodeInt)
      | utcTimeType \<Rightarrow> Some (tagUtcTime, EncodeUTCTime)
      | OtherType _ _ _ \<Rightarrow> None)"

definition sliceEncoder :: "Context \<Rightarrow> gotype \<Rightarrow> fieldOptions \<Rightarrow> (rawValue \<times> encoderFunction option) result" where
  "sliceEncoder ctx objType opts =
     (if elemKind objType = KUint8 then
        Inr (zeroRawValue\<lparr>Tag := tagOctetString\<rparr>, Some EncodeOctetString)
      else
        (case (case choice opts of
                 None \<Rightarrow> Inr opts
               | Some c \<Rightarrow> (case getChoiceByType ctx c objType of
                              Inl err \<Rightarrow> Inl err
                            | Inr entry \<Rightarrow> Inr (entry_opts entry))) of
           Inl err \<Rightarrow> Inl err
         | Inr opts' \<Rightarrow>
             Inr (zeroRawValue\<lparr>Tag := tagSequence, Constructed := True\<rparr>,
                  (case choices opts' of
                     Some name \<Rightarrow> Some (EncodeChoices name)
                   | None \<Rightarrow> Some EncodeSlice))))"

definition genericEncoder :: "Context \<Rightarrow> gotype \<Rightarrow> fieldOptions \<Rightarrow> (rawValue \<times> encoderFunction option) result" where
  "genericEncoder ctx objType opts =
     (let k = kindOfType objType in
      if k = KBool then Inr (zeroRawValue\<lparr>Tag := tagBoolean\<rparr>, Some EncodeBool)
      else if k = KString then Inr (zeroRawValue\<lparr>Tag := tagOctetString\<rparr>, Some EncodeString)
      else if k \<in> {KInt, KInt8, KInt16, KInt32, KInt64} then
        Inr (zeroRawValue\<lparr>Tag := tagInteger\<rparr>, Some EncodeInt)
      else if k \<in> {KUint, KUint8, KUint16, KUint32, KUint64} then
        Inr (zeroRawValue\<lparr>Tag := tagInteger\<rparr>, Some EncodeUint)
      else if k \<in> {KFloat64, KFloat32} then
        Inr (zeroRawValue\<lparr>Tag := tagReal\<rparr>, Some EncodeReal)
      else if k = KStruct then
        Inr (zeroRawValue\<lparr>Tag := tagSequence, Constructed := True\<rparr>,
             Some (if set_opt opts then EncodeStructAsSet else EncodeStruct))
      else if k \<in> {KArray, KSlice} then sliceEncoder ctx objType opts
      else Inr (zeroRawValue, None))"

definition selectEncoder :: "Context \<Rightarrow> gotype \<Rightarrow> fieldOptions \<Rightarrow> (rawValue \<times> encoderFunction option) result" where
  "selectEncoder ctx objType opts =
     (case specialEncoder objType of
        Some (t, enc) \<Rightarrow> Inr (zeroRawValue\<lparr>Tag := t\<rparr>, Some enc)
      | None \<Rightarrow> genericEncoder ctx objType opts)"

text \<open>
  The first steps of \<^verbatim>\<open>encode\<close>: skip the interface type, compute emptiness, and in BER
  mode replace an empty value that has a default by the default value. The result is the
  value to encode and the \<^verbatim>\<open>empty\<close> flag.
\<close>

definition substituteDefault :: "Context \<Rightarrow> value \<Rightarrow> fieldOptions \<Rightarrow> (value \<times> bool) result" where
  "substituteDefault ctx v0 opts =
     (let v = getActualType v0; empty = isEmpty v in
      if defaultValue opts \<noteq> None \<and> empty \<and> \<not> der_encoding ctx then
        (case typeOf v of
           Inl p \<Rightarrow> Inl p
         | Inr t \<Rightarrow> (case newDefaultValue ctx t opts of
                       Inl err \<Rightarrow> Inl err
                     | Inr d \<Rightarrow> Inr (d, False)))
      else Inr (v, empty))"

text \<open>\<^verbatim>\<open>value.NumField()\<close> and \<^verbatim>\<open>value.Len()\<close> panic on a value of another shape.\<close>

definition structFields :: "value \<Rightarrow> structField list result" where
  "structFields v =
     (case v of VStruct _ fs \<Rightarrow> Inr fs
      | _ \<Rightarrow> Inl (Panic ''reflect: call of reflect.Value.NumField on non-struct Value''))"

definition seqElems :: "value \<Rightarrow> value list result" where
  "seqElems v =
     (case v of VSeq _ _ vs \<Rightarrow> Inr vs
      | _ \<Rightarrow> Inl (Panic ''reflect: call of reflect.Value.Len on non-sequence Value''))"

text \<open>
  The options of one sub-field of a variant field, and the discriminant after it: once
  \<^verbatim>\<open>uniqueValue\<close> is not the empty string the options come from the variant table;
  before, the sub-field's own tag is parsed (the ignore tag gives nil, and reading
  \<^verbatim>\<open>o.unique\<close> then panics), and a sub-field marked \<^verbatim>\<open>unique\<close> sets the discriminant
  to its string form.
\<close>

definition variantFieldOptions :: "Context \<Rightarrow> string \<Rightarrow> string \<Rightarrow> structField \<Rightarrow> (fieldOptions \<times> string) result" where
  "variantFieldOptions ctx name uniqueValue f =
     (if uniqueValue \<noteq> [] then
        (case getVariant ctx name uniqueValue (fst f) of
           Inl err \<Rightarrow> Inl err
         | Inr elem \<Rightarrow> Inr (variant_opts elem, uniqueValue))
      else
        (case parseOptions (fst (snd f)) of
           Inl err \<Rightarrow> Inl err
         | Inr None \<Rightarrow> Inl (Panic ''nil pointer dereference'')
         | Inr (Some opt) \<Rightarrow>
             Inr (opt, if unique opt then value_String (snd (snd f)) else uniqueValue)))"

text \<open>\<^verbatim>\<open>encodeRawValues\<close> serializes the children in sequence.\<close>

fun encodeRawValues :: "Context \<Rightarrow> rawValue option list \<Rightarrow> byte list result" where
  "encodeRawValues ctx [] = Inr []"
| "encodeRawValues ctx (raw # rest) =
     (case rawValue_encode ctx raw of
        Inl err \<Rightarrow> Inl err
      | Inr buf \<Rightarrow> (case encodeRawValues ctx rest of
                      Inl err \<Rightarrow> Inl err
                    | Inr content \<Rightarrow> Inr (buf @ content)))"

text \<open>
  Modelled from the spec: the order \<^verbatim>\<open>rawValueSlice\<close> gives \<^verbatim>\<open>sort.Sort\<close> is declared
  outside the source files; by the spec a node comes before another when its
  (class, tag) is smaller.
\<close>

definition rawValueSlice_Less :: "rawValue \<Rightarrow> rawValue \<Rightarrow> bool" where
  "rawValueSlice_Less a b =
     (Class a < Class b \<or> (Class a = Class b \<and> Tag a < Tag b))"

text \<open>
  \<^verbatim>\<open>sort.Sort\<close> of the Go library. On up to six elements it is the insertion sort: each
  element in turn is swapped towards the front while it is less than its left neighbour
  (\<open>sink\<close>, on the sorted front part in reverse order). On longer inputs the library
  switches between algorithms, and the order it leaves among elements that compare equal
  is not fixed: there the result is the field \<open>sortLong\<close> of the context.
\<close>

fun sink :: "rawValue \<Rightarrow> rawValue list \<Rightarrow> rawValue list" where
  "sink x [] = [x]"
| "sink x (y # front) =
     (if rawValueSlice_Less x y then y # sink x front else x # y # front)"

definition insertionSort :: "rawValue list \<Rightarrow> rawValue list" where
  "insertionSort xs = rev (foldl (\<lambda>front x. sink x front) [] xs)"

definition sort_Sort :: "Context \<Rightarrow> rawValue list \<Rightarrow> rawValue list" where
  "sort_Sort ctx xs = (if length xs \<le> 6 then insertionSort xs else sortLong ctx xs)"

text \<open>
  \<^verbatim>\<open>sort.Sort(rawValueSlice(children))\<close>. The children are pointers, and an absent
  child is nil: with two or more children every one of them is compared at least once,
  and comparing reads the class of both nodes, which panics on nil.
\<close>

text \<open>The pair a node is ordered by.\<close>

definition nodeKey :: "rawValue \<Rightarrow> nat \<times> nat" where
  "nodeKey r = (Class r, Tag r)"

definition presentNodes :: "rawValue option list \<Rightarrow> rawValue list" where
  "presentNodes children = concat (map (case_option [] (\<lambda>r. [r])) children)"

definition sortRawValues :: "Context \<Rightarrow> rawValue option list \<Rightarrow> rawValue option list result" where
  "sortRawValues ctx children =
     (if length children \<le> 1 then Inr children
      else if None \<in> set children then Inl (Panic ''nil pointer dereference'')
      else Inr (map Some (sort_Sort ctx (presentNodes children))))"

text \<open>
  What \<^verbatim>\<open>sort.Sort\<close> promises of its result on any input, read here for the function
  that stands for it on long inputs: the same elements, none less than one before it.
\<close>

definition sortsByLess :: "(rawValue list \<Rightarrow> rawValue list) \<Rightarrow> bool" where
  "sortsByLess f =
     (\<forall>xs. mset (f xs) = mset xs \<and> sorted_wrt (\<lambda>a b. \<not> rawValueSlice_Less b a) (f xs))"

text \<open>
  The encoder proper is one recursion through \<^verbatim>\<open>ctx.encode\<close>: every function below
  reaches itself again only through a call of \<^verbatim>\<open>ctx.encode\<close> on a field, a sub-field or
  an element. Each of them therefore takes that call as its first argument \<open>enc\<close>, and
  \<open>encode\<close> at the end closes the recursion, spending one unit of fuel per call.
\<close>

type_synonym encodeCall = "value \<Rightarrow> fieldOptions \<Rightarrow> rawValue option result option"

text \<open>
  \<^verbatim>\<open>ctx.encode\<close> on a sub-field of a variant field. The inner loop does not skip the
  sub-fields that are not exported, and \<^verbatim>\<open>encode\<close> begins with \<^verbatim>\<open>isEmpty\<close>, whose
  \<^verbatim>\<open>value.Interface()\<close> panics on a value read from an unexported field.
\<close>

definition encodeSubField :: "encodeCall \<Rightarrow> Context \<Rightarrow> structField \<Rightarrow> fieldOptions \<Rightarrow> rawValue option result option" where
  "encodeSubField enc ctx f opts =
     (if isFieldExported ctx f then enc (snd (snd f)) opts
      else Some (Inl (Panic ''reflect.Value.Interface: value obtained from unexported field'')))"

text \<open>
  The inner loop of \<^verbatim>\<open>getRawValuesFromFields\<close> over the sub-fields of a variant field,
  carrying \<^verbatim>\<open>uniqueValue\<close>.
\<close>

fun variantLoop :: "encodeCall \<Rightarrow> Context \<Rightarrow> string \<Rightarrow> string \<Rightarrow> structField list \<Rightarrow> rawValue option list result option" where
  "variantLoop enc ctx name uniqueValue [] = Some (Inr [])"
| "variantLoop enc ctx name uniqueValue (f # fs) =
     bindF (Some (variantFieldOptions ctx name uniqueValue f)) (\<lambda>ou.
     bindF (encodeSubField enc ctx f (fst ou)) (\<lambda>raw.
     bindF (variantLoop enc ctx name (snd ou) fs) (\<lambda>rest.
     Some (Inr (raw # rest)))))"

text \<open>
  The body of the loop of \<^verbatim>\<open>getRawValuesFromFields\<close> over the fields: the children one
  field appends.
\<close>

definition fieldChildren :: "encodeCall \<Rightarrow> Context \<Rightarrow> structField \<Rightarrow> rawValue option list result option" where
  "fieldChildren enc ctx f =
     (if isFieldExported ctx f then
        bindF (Some (parseOptions (fst (snd f)))) (\<lambda>parsed.
          (case parsed of
             None \<Rightarrow> Some (Inr [])
           | Some opts \<Rightarrow>
               (case variant opts of
                  Some name \<Rightarrow>
                    bindF (Some (structFields (snd (snd f)))) (\<lambda>subs.
                    variantLoop enc ctx name [] subs)
                | None \<Rightarrow>
                    bindF (enc (snd (snd f)) opts) (\<lambda>raw.
                    Some (Inr [raw])))))
      else Some (Inr []))"

fun fieldsLoop :: "encodeCall \<Rightarrow> Context \<Rightarrow> structField list \<Rightarrow> rawValue option list result option" where
  "fieldsLoop enc ctx [] = Some (Inr [])"
| "fieldsLoop enc ctx (f # fs) =
     bindF (fieldChildren enc ctx f) (\<lambda>cs.
     bindF (fieldsLoop enc ctx fs) (\<lambda>rest.
     Some (Inr (cs @ rest))))"

definition getRawValuesFromFields :: "encodeCall \<Rightarrow> Context \<Rightarrow> value \<Rightarrow> rawValue option list result option" where
  "getRawValuesFromFields enc ctx v =
     bindF (Some (structFields v)) (\<lambda>fs. fieldsLoop enc ctx fs)"

definition encodeStruct :: "encodeCall \<Rightarrow> Context \<Rightarrow> value \<Rightarrow> byte list result option" where
  "encodeStruct enc ctx v =
     bindF (getRawValuesFromFields enc ctx v) (\<lambda>children.
     Some (encodeRawValues ctx children))"

definition encodeStructAsSet :: "encodeCall \<Rightarrow> Context \<Rightarrow> value \<Rightarrow> byte list result option" where
  "encodeStructAsSet enc ctx v =
     bindF (getRawValuesFromFields enc ctx v) (\<lambda>children.
     bindF (Some (if der_encoding ctx then sortRawValues ctx children else Inr children))
       (\<lambda>sorted. Some (encodeRawValues ctx sorted)))"

text \<open>
  \<^verbatim>\<open>EncodeWithOptions\<close> on \<^verbatim>\<open>reflect.ValueOf(obj)\<close>: the ignore tag gives no bytes and
  no error.
\<close>

definition EncodeWithOptions :: "encodeCall \<Rightarrow> Context \<Rightarrow> value \<Rightarrow> string \<Rightarrow> byte list result option" where
  "EncodeWithOptions enc ctx v options =
     bindF (Some (parseOptions options)) (\<lambda>parsed.
       (case parsed of
          None \<Rightarrow> Some (Inr [])
        | Some opts \<Rightarrow>
            bindF (enc v opts) (\<lambda>raw.
            Some (rawValue_encode ctx raw))))"

text \<open>
  The loop of \<^verbatim>\<open>encodeSlice\<close> and of \<^verbatim>\<open>encodeChoices\<close> over the elements; the two
  differ in the options they hand to \<^verbatim>\<open>EncodeWithOptions\<close>.
\<close>

fun encodeItems :: "encodeCall \<Rightarrow> Context \<Rightarrow> string \<Rightarrow> value list \<Rightarrow> byte list result option" where
  "encodeItems enc ctx options [] = Some (Inr [])"
| "encodeItems enc ctx options (item # items) =
     bindF (EncodeWithOptions enc ctx (valueOfInterface item) options) (\<lambda>childBytes.
     bindF (encodeItems enc ctx options items) (\<lambda>content.
     Some (Inr (childBytes @ content))))"

definition encodeSlice :: "encodeCall \<Rightarrow> Context \<Rightarrow> value \<Rightarrow> byte list result option" where
  "encodeSlice enc ctx v =
     bindF (Some (seqElems v)) (\<lambda>items. encodeItems enc ctx [] items)"

definition encodeChoices :: "encodeCall \<Rightarrow> Context \<Rightarrow> string \<Rightarrow> value \<Rightarrow> byte list result option" where
  "encodeChoices enc ctx choiceName v =
     bindF (Some (seqElems v)) (\<lambda>items.
     encodeItems enc ctx (''choice:'' @ choiceName) items)"

text \<open>Running the encoder \<^verbatim>\<open>encodeValue\<close> has chosen.\<close>

definition runEncoder :: "encodeCall \<Rightarrow> Context \<Rightarrow> encoderFunction \<Rightarrow> value \<Rightarrow> byte list result option" where
  "runEncoder enc ctx encoder v =
     (case encoder of
        EncodeStruct \<Rightarrow> encodeStruct enc ctx v
      | EncodeStructAsSet \<Rightarrow> encodeStructAsSet enc ctx v
      | EncodeSlice \<Rightarrow> encodeSlice enc ctx v
      | EncodeChoices name \<Rightarrow> encodeChoices enc ctx name v
      | _ \<Rightarrow> Some (primitiveEncoder ctx encoder v))"

definition encodeValue :: "encodeCall \<Rightarrow> Context \<Rightarrow> value \<Rightarrow> fieldOptions \<Rightarrow> rawValue result option" where
  "encodeValue enc ctx v opts =
     bindF (Some (typeOf v)) (\<lambda>objType.
     bindF (Some (selectEncoder ctx objType opts)) (\<lambda>sel.
       (case snd sel of
          None \<Rightarrow> Some (Inl (SyntaxError ''invalid Go type''))
        | Some encoder \<Rightarrow>
            bindF (runEncoder enc ctx encoder v) (\<lambda>content.
            Some (Inr ((fst sel)\<lparr>Content := content\<rparr>))))))"

text \<open>
  \<^verbatim>\<open>encode\<close>, the main encode function: \<open>Inr None\<close> is the absent result
  \<^verbatim>\<open>(nil, nil)\<close>.
\<close>

fun encode :: "nat \<Rightarrow> Context \<Rightarrow> value \<Rightarrow> fieldOptions \<Rightarrow> rawValue option result option" where
  "encode 0 ctx v opts = None"
| "encode (Suc n) ctx v opts =
     bindF (Some (substituteDefault ctx v opts)) (\<lambda>ve.
       if (optional opts \<or> defaultValue opts \<noteq> None) \<and> snd ve then Some (Inr None)
       else
         bindF (encodeValue (encode n ctx) ctx (fst ve) opts) (\<lambda>raw.
         bindF (applyOptions n ctx (fst ve) raw opts) (\<lambda>raw'.
         Some (Inr (Some raw')))))"

text \<open>The entry point \<^verbatim>\<open>(*Context).EncodeWithOptions\<close> on \<^verbatim>\<open>obj\<close>, with a budget of fuel.\<close>

definition Context_EncodeWithOptions :: "nat \<Rightarrow> Context \<Rightarrow> value \<Rightarrow> string \<Rightarrow> byte list result option" where
  "Context_EncodeWithOptions n ctx obj options =
     EncodeWithOptions (encode n ctx) ctx (valueOfInterface obj) options"

section \<open>The variant rule in the words of the spec\<close>

text \<open>
  The spec describes the sub-fields of a variant field in two groups. Up to and including
  the sub-field marked \<^verbatim>\<open>unique\<close>, each sub-field is encoded under its own literal
  directive (\<open>literalFields\<close>); after it, each sub-field is encoded under the options
  the variant table gives for the table name, the discriminant and the sub-field's name
  (\<open>lookupFields\<close>). Both take the encoding of one sub-field under given options as
  their first argument. These two functions are compared with \<open>variantLoop\<close> below.
\<close>

type_synonym subFieldCall = "structField \<Rightarrow> fieldOptions \<Rightarrow> rawValue option result option"

fun literalFields :: "subFieldCall \<Rightarrow> structField list \<Rightarrow> rawValue option list result option" where
  "literalFields encf [] = Some (Inr [])"
| "literalFields encf (f # fs) =
     bindF (Some (parseOptions (fst (snd f)))) (\<lambda>parsed.
       (case parsed of
          None \<Rightarrow> Some (Inl (Panic ''nil pointer dereference''))
        | Some opt \<Rightarrow>
            bindF (encf f opt) (\<lambda>raw.
            bindF (literalFields encf fs) (\<lambda>rest.
            Some (Inr (raw # rest))))))"

fun lookupFields :: "subFieldCall \<Rightarrow> Context \<Rightarrow> string \<Rightarrow> string \<Rightarrow> structField list \<Rightarrow> rawValue option list result option" where
  "lookupFields encf ctx name discriminant [] = Some (Inr [])"
| "lookupFields encf ctx name discriminant (f # fs) =
     bindF (Some (getVariant ctx name discriminant (fst f))) (\<lambda>elem.
     bindF (encf f (variant_opts elem)) (\<lambda>raw.
     bindF (lookupFields encf ctx name discriminant fs) (\<lambda>rest.
     Some (Inr (raw # rest)))))"

text \<open>A sub-field whose own directive parses and marks it \<^verbatim>\<open>unique\<close>.\<close>

definition markedUnique :: "structField \<Rightarrow> bool" where
  "markedUnique f =
     (case parseOptions (fst (snd f)) of
        Inr (Some opt) \<Rightarrow> unique opt
      | _ \<Rightarrow> False)"

section \<open>A concrete context\<close>

text \<open>
  A small context on which the theorems below are instantiated. Its choice table
  \<^verbatim>\<open>X\<close> registers \<^verbatim>\<open>int\<close> with no nested options, its table \<^verbatim>\<open>Y\<close> registers
  \<^verbatim>\<open>int\<close> with the nested option \<^verbatim>\<open>indefinite\<close>; its variant table \<^verbatim>\<open>V\<close> knows
  the field \<^verbatim>\<open>Body\<close> under the discriminant \<^verbatim>\<open>a\<close>. Defaults exist for the signed
  integer kinds. Integers from 0 to 127 are encoded in one content byte and strings byte
  by byte; a node is serialized with a one-byte identifier and a one-byte length. A name
  counts as starting with a capital when its first byte is an ASCII capital, and long
  inputs are sorted by insertion as the short ones are.
\<close>

definition intType :: gotype where
  "intType = OtherType ''int'' KInt KInvalid"

definition stringType :: gotype where
  "stringType = OtherType ''string'' KString KInvalid"

definition exampleChoices :: "string \<Rightarrow> gotype \<Rightarrow> choiceEntry result" where
  "exampleChoices name t =
     (if name = ''X'' \<and> t = intType then
        Inr \<lparr> entry_class = classContextSpecific, entry_tag = 3, entry_opts = zeroOptions \<rparr>
      else if name = ''Y'' \<and> t = intType then
        Inr \<lparr> entry_class = classContextSpecific, entry_tag = 4,
              entry_opts = zeroOptions\<lparr>indefinite := True\<rparr> \<rparr>
      else Inl (LookupError ''choice not found''))"

definition exampleVariants :: "string \<Rightarrow> string \<Rightarrow> string \<Rightarrow> variantEntry result" where
  "exampleVariants name uniqueValue fieldName =
     (if name = ''V'' \<and> uniqueValue = ''a'' \<and> fieldName = ''Body'' then
        Inr \<lparr> variant_opts = zeroOptions\<lparr>tag := Some 1\<rparr> \<rparr>
      else Inl (LookupError ''variant not found''))"

definition exampleDefault :: "gotype \<Rightarrow> fieldOptions \<Rightarrow> value result" where
  "exampleDefault t opts =
     (if kindOfType t \<in> {KInt, KInt8, KInt16, KInt32, KInt64} then
        Inr (VInt t (case defaultValue opts of None \<Rightarrow> 0 | Some d \<Rightarrow> d))
      else Inl (SyntaxError ''default value is only allowed to integers''))"

definition examplePrimitive :: "encoderFunction \<Rightarrow> value \<Rightarrow> byte list result" where
  "examplePrimitive encoder v =
     (case v of
        VInt _ i \<Rightarrow>
          if encoder = EncodeInt \<and> 0 \<le> i \<and> i < 128 then Inr [word_of_int i]
          else Inl (SyntaxError ''unsupported value'')
      | VString _ s \<Rightarrow>
          if encoder = EncodeString then Inr (map (\<lambda>c. of_nat (of_char c)) s)
          else Inl (SyntaxError ''unsupported value'')
      | _ \<Rightarrow> Inl (SyntaxError ''unsupported value''))"

definition exampleSerialize :: "rawValue \<Rightarrow> byte list result" where
  "exampleSerialize raw =
     (if Tag raw \<le> 30 \<and> length (Content raw) < 128 then
        Inr (of_nat (Class raw * 64 + (if Constructed raw then 32 else 0) + Tag raw)
             # (if Indefinite raw then 0x80 # Content raw @ [0, 0]
                else of_nat (length (Content raw)) # Content raw))
      else Inl (SyntaxError ''long form''))"

definition exampleUpperFirst :: "string \<Rightarrow> bool" where
  "exampleUpperFirst name =
     (case name of [] \<Rightarrow> False
      | c # _ \<Rightarrow> 65 \<le> (of_char c :: nat) \<and> (of_char c :: nat) \<le> 90)"

definition exampleContext :: "bool \<Rightarrow> Context" where
  "exampleContext der =
     \<lparr> der_encoding = der, getChoiceByType = exampleChoices,
       getVariant = exampleVariants, newDefaultValue = exampleDefault,
       primitiveEncoder = examplePrimitive, serialize = exampleSerialize,
       upperFirst = exampleUpperFirst, sortLong = insertionSort \<rparr>"

section \<open>Chaining steps\<close>

lemma bindF_None [simp]: "bindF None f = None"
  by (simp add: bindF_def)

lemma bindF_error [simp]: "bindF (Some (Inl e)) f = Some (Inl e)"
  by (simp add: bindF_def)

lemma bindF_value [simp]: "bindF (Some (Inr x)) f = f x"
  by (simp add: bindF_def)

lemma bindF_return [simp]: "bindF m (\<lambda>x. Some (Inr x)) = m"
  by (simp add: bindF_def split: option.splits sum.splits)

lemma bindF_assoc: "bindF (bindF m f) g = bindF m (\<lambda>x. bindF (f x) g)"
  by (simp add: bindF_def split: option.splits sum.splits)

lemma bindF_succeeds:
  "bindF m f = Some (Inr y) \<longleftrightarrow> (\<exists>x. m = Some (Inr x) \<and> f x = Some (Inr y))"
  by (simp add: bindF_def split: option.splits sum.splits)

section \<open>The directive parser\<close>

lemma stripPrefix_append [simp]: "stripPrefix p (p @ r) = Some r"
  by (induction p) simp_all

lemma stripPrefix_Some: "stripPrefix p s = Some r \<Longrightarrow> s = p @ r"
proof (induction p s rule: stripPrefix.induct)
  case (1 s)
  then show ?case by simp
next
  case (2 p ps)
  then show ?case by simp
next
  case (3 p ps c cs)
  then show ?case by (simp split: if_splits)
qed

lemma stripOne_Some: "stripOne runes s = Some r \<Longrightarrow> \<exists>p \<in> set runes. s = p @ r"
  by (induction runes) (auto split: option.splits dest: stripPrefix_Some)

lemma stripOne_member: "u \<in> set runes \<Longrightarrow> stripOne runes (u @ r) \<noteq> None"
  by (induction runes) (auto split: option.splits)

lemma spaceRunes_prefix_free:
  "list_all (\<lambda>p. list_all (\<lambda>q. prefix p q \<longrightarrow> p = q) spaceRunes) spaceRunes"
  unfolding spaceRunes_def by code_simp

lemma spaceRunes_plain:
  "list_all (\<lambda>p. p \<noteq> [] \<and> CHR '','' \<notin> set p \<and> CHR ''-'' \<notin> set p \<and> CHR '':'' \<notin> set p) spaceRunes"
  unfolding spaceRunes_def by code_simp

lemma stripOne_spaceRune:
  assumes "u \<in> set spaceRunes"
  shows "stripOne spaceRunes (u @ r) = Some r"
proof -
  from stripOne_member [OF assms] obtain r' where r': "stripOne spaceRunes (u @ r) = Some r'"
    by blast
  then obtain p where p: "p \<in> set spaceRunes" "u @ r = p @ r'"
    by (blast dest: stripOne_Some)
  from p(2) have "prefix p u \<or> prefix u p"
    by (metis append_eq_append_conv2 prefixI)
  with assms p(1) spaceRunes_prefix_free have "p = u"
    by (auto simp: list_all_iff)
  with p(2) r' show ?thesis by simp
qed

lemma trimRunes_spaces:
  "set us \<subseteq> set spaceRunes \<Longrightarrow> length us \<le> n \<Longrightarrow> trimRunes n spaceRunes (concat us) = []"
proof (induction us arbitrary: n)
  case Nil
  then show ?case by (cases n) (simp_all add: spaceRunes_def)
next
  case (Cons u us)
  then obtain m where n: "n = Suc m" and m: "length us \<le> m" by (cases n) auto
  from Cons.prems have u: "u \<in> set spaceRunes" and us: "set us \<subseteq> set spaceRunes" by auto
  show ?case by (simp add: n stripOne_spaceRune [OF u] Cons.IH [OF us m])
qed

lemma length_concat_spaces:
  "set us \<subseteq> set spaceRunes \<Longrightarrow> length us \<le> length (concat us)"
proof (induction us)
  case Nil
  show ?case by simp
next
  case (Cons u us)
  then have "u \<noteq> []" using spaceRunes_plain by (auto simp: list_all_iff)
  then have "1 \<le> length u" by (cases u) simp_all
  with Cons show ?case by simp
qed

lemma strings_TrimSpace_spaces:
  assumes "set us \<subseteq> set spaceRunes"
  shows "strings_TrimSpace (concat us) = []"
proof -
  have "trimLeft (concat us) = []"
    unfolding trimLeft_def using assms length_concat_spaces [OF assms] by (rule trimRunes_spaces)
  then show ?thesis by (simp add: strings_TrimSpace_def trimRight_def)
qed

lemma strings_Split_nonempty: "strings_Split c s \<noteq> []"
  by (induction s) (simp_all split: list.splits)

lemma strings_Split_append:
  "c \<notin> set w \<Longrightarrow>
   strings_Split c (w @ rest) = (w @ hd (strings_Split c rest)) # tl (strings_Split c rest)"
proof (induction w)
  case Nil
  show ?case using strings_Split_nonempty [of c rest] by simp
next
  case (Cons x w)
  then show ?case by auto
qed

lemma blank_tokens:
  assumes "\<forall>w \<in> set ws. w = '','' \<or> w \<in> set spaceRunes"
  shows "\<forall>t \<in> set (strings_Split (CHR '','') (concat ws)).
           \<exists>us. set us \<subseteq> set spaceRunes \<and> t = concat us"
  using assms
proof (induction ws)
  case Nil
  have "set [] \<subseteq> set spaceRunes \<and> [] = concat ([] :: string list)" by simp
  then have "\<exists>us. set us \<subseteq> set spaceRunes \<and> [] = concat us" by blast
  then show ?case by simp
next
  case (Cons w ws)
  let ?rest = "strings_Split (CHR '','') (concat ws)"
  from Cons have IH: "\<forall>t \<in> set ?rest. \<exists>us. set us \<subseteq> set spaceRunes \<and> t = concat us"
    by simp
  from Cons.prems have "w = '','' \<or> w \<in> set spaceRunes" by simp
  then show ?case
  proof
    assume "w = '',''"
    then have "strings_Split (CHR '','') (concat (w # ws)) = [] # ?rest" by simp
    moreover have "\<exists>us. set us \<subseteq> set spaceRunes \<and> [] = concat us"
      by (rule exI [of _ "[]"]) simp
    ultimately show ?thesis using IH by simp
  next
    assume w: "w \<in> set spaceRunes"
    then have "CHR '','' \<notin> set w" using spaceRunes_plain by (auto simp: list_all_iff)
    then have s: "strings_Split (CHR '','') (concat (w # ws)) = (w @ hd ?rest) # tl ?rest"
      by (simp add: strings_Split_append)
    have ne: "?rest \<noteq> []" by (rule strings_Split_nonempty)
    then have "hd ?rest \<in> set ?rest" by simp
    with IH obtain us where us: "set us \<subseteq> set spaceRunes" "hd ?rest = concat us" by blast
    with w have "set (w # us) \<subseteq> set spaceRunes \<and> w @ hd ?rest = concat (w # us)" by simp
    then have h: "\<exists>us. set us \<subseteq> set spaceRunes \<and> w @ hd ?rest = concat us" by blast
    have "set (tl ?rest) \<subseteq> set ?rest" using ne by (cases ?rest) auto
    with IH h show ?thesis unfolding s by auto
  qed
qed

lemma parseTokens_blank:
  "\<forall>t \<in> set ts. strings_TrimSpace t = [] \<Longrightarrow> parseTokens opts ts = Inr opts"
  by (induction ts) (simp_all add: parseOption_def)

lemma absent_not_singleton: "x \<notin> set s \<Longrightarrow> s \<noteq> [x]"
  by auto

text \<open>
  Claim C9. A directive string made of commas and white space only (the empty string
  included), that is a concatenation of commas and white-space runes, parses, and the
  result is the empty directive set: no flag, no tag, no default, no choice, choices or
  variant. The empty tokens between the commas are skipped, not reported as unknown.
\<close>

theorem parseOptions_blank:
  assumes "\<forall>w \<in> set ws. w = '','' \<or> w \<in> set spaceRunes"
  shows "parseOptions (concat ws) = Inr (Some zeroOptions)"
proof -
  have dash: "CHR ''-'' \<notin> set (concat ws)"
    using assms spaceRunes_plain by (auto simp: list_all_iff)
  then have ne: "concat ws \<noteq> ''-''" by (rule absent_not_singleton)
  have "\<forall>t \<in> set (strings_Split (CHR '','') (concat ws)). strings_TrimSpace t = []"
  proof
    fix t assume "t \<in> set (strings_Split (CHR '','') (concat ws))"
    with blank_tokens [OF assms] obtain us where "set us \<subseteq> set spaceRunes" "t = concat us"
      by blast
    then show "strings_TrimSpace t = []" by (simp only: strings_TrimSpace_spaces)
  qed
  then have "parseTokens zeroOptions (strings_Split (CHR '','') (concat ws)) = Inr zeroOptions"
    by (rule parseTokens_blank)
  moreover have "validate zeroOptions = None" by (simp add: validate_def zeroOptions_def)
  ultimately show ?thesis using ne by (simp add: parseOptions_def)
qed

theorem parseOptions_blank_witness:
  "parseOptions [CHR 0x20, CHR '','', CHR 0xC2, CHR 0xA0, CHR '','', CHR 0xE3, CHR 0x80, CHR 0x80]
     = Inr (Some zeroOptions)"
  using parseOptions_blank [of "[[CHR 0x20], '','', [CHR 0xC2, CHR 0xA0], '','', [CHR 0xE3, CHR 0x80, CHR 0x80]]"]
  by (simp add: spaceRunes_def)

section \<open>Post-processing: explicit tags and choices\<close>

lemmas fixture_defs = exampleContext_def exampleChoices_def exampleVariants_def exampleDefault_def
  examplePrimitive_def exampleSerialize_def exampleUpperFirst_def intType_def stringType_def
lemmas const_defs = classUniversal_def classApplication_def classContextSpecific_def
  tagInteger_def tagSequence_def tagSet_def tagOctetString_def tagBoolean_def
lemmas apply_defs = applySet_def applyExplicit_def applyTag_def applyIndefinite_def
  syntaxErrorOnType_def rawValue_encode_def uint_of_int_def
lemmas select_defs = selectEncoder_def specialEncoder_def genericEncoder_def sliceEncoder_def
lemmas parse_defs = parseOptions_def parseOption_def strings_TrimSpace_def trimLeft_def
  trimRight_def spaceRunes_def
  parseBoolOption_def parseIntOption_def parseStringOption_def bind_result_def validate_def
  strconv_Atoi_def isDigit_def digitsValue_def

lemma parse_examples:
  "parseOptions ''explicit'' = Inr (Some (zeroOptions\<lparr>explicit := True\<rparr>))"
  "parseOptions ''tag:5,explicit'' = Inr (Some (zeroOptions\<lparr>tag := Some 5, explicit := True\<rparr>))"
  "parseOptions ''optional'' = Inr (Some (zeroOptions\<lparr>optional := True\<rparr>))"
  "parseOptions ''unique'' = Inr (Some (zeroOptions\<lparr>unique := True\<rparr>))"
  "parseOptions ''tag:2'' = Inr (Some (zeroOptions\<lparr>tag := Some 2\<rparr>))"
  "parseOptions [] = Inr (Some zeroOptions)"
  "parseOptions ''set'' = Inr (Some (zeroOptions\<lparr>set_opt := True\<rparr>))"
  by (simp_all add: parse_defs zeroOptions_def)

lemma applyOptions_steps:
  "applyOptions (Suc n) ctx v raw opts =
     bindF (applyOptions (Suc n) ctx v raw (setAndChoice opts)) (\<lambda>raw2.
     bindF (Some (applyExplicit ctx v raw2 opts)) (\<lambda>raw3.
     Some (applyIndefinite v (applyTag raw3 opts) opts)))"
proof -
  have s: "set_opt (setAndChoice opts) = set_opt opts" "choice (setAndChoice opts) = choice opts"
    by (simp_all add: setAndChoice_def)
  have a: "applySet v raw (setAndChoice opts) = applySet v raw opts"
    by (simp add: applySet_def s)
  have e: "applyExplicit ctx v r (setAndChoice opts) = Inr r" for r
    by (simp add: applyExplicit_def setAndChoice_def)
  have t: "applyTag r (setAndChoice opts) = r" for r
    by (simp add: applyTag_def setAndChoice_def)
  have i: "applyIndefinite v r (setAndChoice opts) = Inr r" for r
    by (simp add: applyIndefinite_def setAndChoice_def)
  show ?thesis
    by (simp add: a s e t i bindF_assoc)
qed


lemma applyExplicit_without_tag:
  "explicit opts \<Longrightarrow> tag opts = None \<Longrightarrow>
   applyExplicit ctx v raw opts =
     Inl (syntaxErrorOnType v ''invalid flag explicit without tag on Go type'')"
  by (simp add: applyExplicit_def)

lemma encodeValue_typeOf:
  "encodeValue enc ctx v opts = Some (Inr raw) \<Longrightarrow> \<exists>t. typeOf v = Inr t"
  by (cases "typeOf v") (simp_all add: encodeValue_def)

lemma encode_steps:
  assumes "substituteDefault ctx v opts = Inr (v', e)"
    and "\<not> ((optional opts \<or> defaultValue opts \<noteq> None) \<and> e)"
  shows "encode (Suc n) ctx v opts =
     bindF (encodeValue (encode n ctx) ctx v' opts) (\<lambda>raw.
     bindF (applyOptions n ctx v' raw opts) (\<lambda>raw'. Some (Inr (Some raw'))))"
  using assms by auto

text \<open>
  Claim C4, as stated, fails: the directive \<^verbatim>\<open>explicit\<close>, with no \<^verbatim>\<open>tag\<close>, is not
  rejected by the parser. \<^verbatim>\<open>validate\<close> has no check for it, and \<^verbatim>\<open>parseOptions\<close>
  returns the option set with \<^verbatim>\<open>explicit\<close> alone.
\<close>

theorem parseOptions_accepts_explicit_without_tag: "parseOptions ''explicit'' = Inr (Some (zeroOptions\<lparr>explicit := True\<rparr>))"
  by (rule parse_examples)

text \<open>
  Claim C4, amended. For an option set with \<^verbatim>\<open>explicit\<close> and no \<^verbatim>\<open>tag\<close>,
  validation gives the same verdict as without \<^verbatim>\<open>explicit\<close>: the parser does not report
  it. Under such options \<^verbatim>\<open>applyOptions\<close> never returns a node, and \<^verbatim>\<open>encode\<close> never
  returns one either. The failure is reported during encoding, by the \<^verbatim>\<open>explicit\<close> step
  of \<^verbatim>\<open>applyOptions\<close>: whenever the \<^verbatim>\<open>set\<close> and \<^verbatim>\<open>choice\<close> steps before it succeed,
  \<^verbatim>\<open>applyOptions\<close> returns the syntax error of that step; and whenever the value is not
  omitted as empty, its content encodes and those two steps succeed, \<^verbatim>\<open>encode\<close> returns
  that syntax error.
\<close>

theorem explicit_without_tag_rejected_when_applied:
  assumes "explicit opts" and "tag opts = None"
  shows "validate opts = validate (opts\<lparr>explicit := False\<rparr>)
     \<and> (\<forall>r. applyOptions n ctx v raw opts \<noteq> Some (Inr r))
     \<and> (\<forall>r. encode m ctx v opts \<noteq> Some (Inr (Some r)))
     \<and> (applyOptions (Suc n) ctx v raw (setAndChoice opts) = Some (Inr inner)
          \<and> typeOf v = Inr t \<longrightarrow>
          applyOptions (Suc n) ctx v raw opts =
            Some (Inl (SyntaxError ''invalid flag explicit without tag on Go type'')))
     \<and> (substituteDefault ctx v opts = Inr (v', e)
          \<and> \<not> ((optional opts \<or> defaultValue opts \<noteq> None) \<and> e)
          \<and> encodeValue (encode (Suc n) ctx) ctx v' opts = Some (Inr raw)
          \<and> applyOptions (Suc n) ctx v' raw (setAndChoice opts) = Some (Inr inner) \<longrightarrow>
          encode (Suc (Suc n)) ctx v opts =
            Some (Inl (SyntaxError ''invalid flag explicit without tag on Go type'')))"
proof -
  have never: "applyOptions k ctx w r0 opts \<noteq> Some (Inr r)" for k w r0 r
  proof (cases k)
    case 0
    then show ?thesis by simp
  next
    case (Suc j)
    show ?thesis
      unfolding Suc applyOptions_steps [of j ctx w r0 opts]
      by (auto simp: bindF_succeeds applyExplicit_without_tag [OF assms])
  qed
  have exact: "applyOptions (Suc k) ctx w r0 opts =
      Some (Inl (SyntaxError ''invalid flag explicit without tag on Go type''))"
    if "applyOptions (Suc k) ctx w r0 (setAndChoice opts) = Some (Inr r1)" "typeOf w = Inr t'"
    for k w r0 r1 t'
    unfolding applyOptions_steps [of k ctx w r0 opts]
    using that by (simp add: applyExplicit_without_tag [OF assms] syntaxErrorOnType_def)
  have c1: "validate opts = validate (opts\<lparr>explicit := False\<rparr>)"
    by (simp add: validate_def)
  have c3: "encode m ctx v opts \<noteq> Some (Inr (Some r))" for r
  proof (cases m)
    case 0
    then show ?thesis by simp
  next
    case (Suc j)
    show ?thesis unfolding Suc using never
      by (auto simp: bindF_succeeds split: if_splits)
  qed
  have c5: "encode (Suc (Suc n)) ctx v opts =
            Some (Inl (SyntaxError ''invalid flag explicit without tag on Go type''))"
    if h: "substituteDefault ctx v opts = Inr (v', e)
          \<and> \<not> ((optional opts \<or> defaultValue opts \<noteq> None) \<and> e)
          \<and> encodeValue (encode (Suc n) ctx) ctx v' opts = Some (Inr raw)
          \<and> applyOptions (Suc n) ctx v' raw (setAndChoice opts) = Some (Inr inner)"
  proof -
    from h obtain t' where t': "typeOf v' = Inr t'" by (blast dest: encodeValue_typeOf)
    from h have x: "applyOptions (Suc n) ctx v' raw opts =
        Some (Inl (SyntaxError ''invalid flag explicit without tag on Go type''))"
      using exact t' by blast
    from h have "encode (Suc (Suc n)) ctx v opts =
       bindF (encodeValue (encode (Suc n) ctx) ctx v' opts) (\<lambda>raw.
       bindF (applyOptions (Suc n) ctx v' raw opts) (\<lambda>raw'. Some (Inr (Some raw'))))"
      by (intro encode_steps) blast+
    with h x show ?thesis by simp
  qed
  show ?thesis using c1 never c3 exact c5 by blast
qed


lemmas encode_defs = encodeValue_def runEncoder_def substituteDefault_def bindF_def
  zeroOptions_def zeroRawValue_def

theorem explicit_without_tag_rejected_when_applied_witness:
  "validate (zeroOptions\<lparr>explicit := True\<rparr>) = None
   \<and> applyOptions (Suc 0) (exampleContext False) (VInt intType 7)
        (zeroRawValue\<lparr>Tag := tagInteger, Content := [7]\<rparr>) (zeroOptions\<lparr>explicit := True\<rparr>)
      = Some (Inl (SyntaxError ''invalid flag explicit without tag on Go type''))
   \<and> encode (Suc (Suc 0)) (exampleContext False) (VInt intType 7) (zeroOptions\<lparr>explicit := True\<rparr>)
      = Some (Inl (SyntaxError ''invalid flag explicit without tag on Go type''))"
  using explicit_without_tag_rejected_when_applied [where opts = "zeroOptions\<lparr>explicit := True\<rparr>" and n = 0
      and ctx = "exampleContext False" and v = "VInt intType 7"
      and raw = "zeroRawValue\<lparr>Tag := tagInteger, Content := [7]\<rparr>"
      and inner = "zeroRawValue\<lparr>Tag := tagInteger, Content := [7]\<rparr>"
      and t = intType and v' = "VInt intType 7" and e = False]
  by (simp add: encode_defs select_defs apply_defs fixture_defs const_defs setAndChoice_def
        validate_def)

text \<open>
  Claim C3 at a concrete input: the value 7 of type \<^verbatim>\<open>int\<close> under \<^verbatim>\<open>choice:Y\<close>, where
  table \<^verbatim>\<open>Y\<close> registers \<^verbatim>\<open>int\<close> with the nested option \<^verbatim>\<open>indefinite\<close>. Applying
  the nested options to the primitive node fails with a syntax error; \<^verbatim>\<open>applyOptions\<close>
  on the \<^verbatim>\<open>choice\<close> directive does not return that error: it goes on to write the
  class of the entry into the nil node and panics.
\<close>

theorem applyOptions_choice_error_lost: "applyOptions (Suc 0) (exampleContext False) (VInt intType 7)
        (zeroRawValue\<lparr>Tag := tagInteger, Content := [7]\<rparr>) (zeroOptions\<lparr>indefinite := True\<rparr>)
      = Some (Inl (SyntaxError ''invalid flag indefinite on Go type''))
  \<and> applyOptions (Suc (Suc 0)) (exampleContext False) (VInt intType 7)
        (zeroRawValue\<lparr>Tag := tagInteger, Content := [7]\<rparr>) (zeroOptions\<lparr>choice := Some ''Y''\<rparr>)
      = Some (Inl (Panic ''nil pointer dereference''))"
  by (simp add: bindF_def apply_defs fixture_defs zeroOptions_def zeroRawValue_def const_defs)

lemma encodeValue_int:
  assumes "primitiveEncoder ctx EncodeInt (VInt (OtherType nm KInt e) i) = Inr content"
  shows "encodeValue enc ctx (VInt (OtherType nm KInt e) i) opts =
     Some (Inr (zeroRawValue\<lparr>Tag := tagInteger, Content := content\<rparr>))"
  using assms by (simp add: encodeValue_def select_defs runEncoder_def)

lemma applyOptions_plain:
  "\<not> set_opt opts \<Longrightarrow> choice opts = None \<Longrightarrow>
   applyOptions (Suc n) ctx v raw (setAndChoice opts) = Some (Inr raw)"
  by (simp add: setAndChoice_def apply_defs)

text \<open>
  Claim C6. Under \<^verbatim>\<open>explicit\<close> with a \<^verbatim>\<open>tag\<close>, whatever the other directives, the
  \<^verbatim>\<open>explicit\<close> step takes the current node (the node after the \<^verbatim>\<open>set\<close> and
  \<^verbatim>\<open>choice\<close> steps), serializes it fully and wraps the bytes in a new constructed node;
  the later steps give the new node the tag, and the class context-specific unless
  \<^verbatim>\<open>universal\<close> or \<^verbatim>\<open>application\<close> asks for another. The inner node keeps its tag
  inside the bytes, and a failure to serialize it is returned. In particular, where the
  integer 7 has the content byte 07, encoding it under \<^verbatim>\<open>tag:5,explicit\<close> first gives
  the inner node, universal INTEGER (tag 2) with content 07, and the result is the
  constructed context-specific node with tag 5 whose content is exactly the serialization
  of that inner node.
\<close>

theorem explicit_wraps_serialized_node:
  "(explicit opts \<and> tag opts = Some t
      \<and> applyOptions (Suc n) ctx v raw (setAndChoice opts) = Some (Inr current) \<longrightarrow>
      (serialize ctx current = Inr bytes \<longrightarrow>
         applyOptions (Suc n) ctx v raw opts =
           Some (Inr \<lparr> Class = (if application opts then classApplication
                                else if universal opts then classUniversal
                                else classContextSpecific),
                       Tag = uint_of_int t, Constructed = True,
                       Indefinite = indefinite opts, Content = bytes \<rparr>))
    \<and> (serialize ctx current = Inl err \<longrightarrow>
         applyOptions (Suc n) ctx v raw opts = Some (Inl err)))
   \<and> (primitiveEncoder ctx EncodeInt (VInt (OtherType nm KInt e) 7) = Inr [0x07]
      \<and> serialize ctx \<lparr> Class = classUniversal, Tag = 2, Constructed = False, Indefinite = False,
                         Content = [0x07] \<rparr> = Inr inner \<longrightarrow>
      parseOptions ''tag:5,explicit'' = Inr (Some (zeroOptions\<lparr>tag := Some 5, explicit := True\<rparr>))
      \<and> encodeValue (encode (Suc n) ctx) ctx (VInt (OtherType nm KInt e) 7)
           (zeroOptions\<lparr>tag := Some 5, explicit := True\<rparr>) =
        Some (Inr \<lparr> Class = classUniversal, Tag = 2, Constructed = False, Indefinite = False,
                    Content = [0x07] \<rparr>)
      \<and> encode (Suc (Suc n)) ctx (VInt (OtherType nm KInt e) 7)
           (zeroOptions\<lparr>tag := Some 5, explicit := True\<rparr>) =
        Some (Inr (Some \<lparr> Class = classContextSpecific, Tag = 5, Constructed = True,
                         Indefinite = False, Content = inner \<rparr>)))"
proof (intro conjI impI)
  assume a: "explicit opts \<and> tag opts = Some t
      \<and> applyOptions (Suc n) ctx v raw (setAndChoice opts) = Some (Inr current)"
  {
    assume "serialize ctx current = Inr bytes"
    with a show "applyOptions (Suc n) ctx v raw opts =
           Some (Inr \<lparr> Class = (if application opts then classApplication
                                else if universal opts then classUniversal
                                else classContextSpecific),
                       Tag = uint_of_int t, Constructed = True,
                       Indefinite = indefinite opts, Content = bytes \<rparr>)"
      unfolding applyOptions_steps [of n ctx v raw opts]
      by (simp add: applyExplicit_def applyTag_def applyIndefinite_def rawValue_encode_def
            zeroRawValue_def)
  }
  {
    assume "serialize ctx current = Inl err"
    with a show "applyOptions (Suc n) ctx v raw opts = Some (Inl err)"
      unfolding applyOptions_steps [of n ctx v raw opts]
      by (simp add: applyExplicit_def rawValue_encode_def)
  }
next
  let ?v = "VInt (OtherType nm KInt e) 7"
  let ?o5 = "zeroOptions\<lparr>tag := Some 5, explicit := True\<rparr>"
  let ?inner = "\<lparr> Class = classUniversal, Tag = 2, Constructed = False, Indefinite = False,
                         Content = [0x07::byte] \<rparr>"
  assume a: "primitiveEncoder ctx EncodeInt ?v = Inr [0x07] \<and> serialize ctx ?inner = Inr inner"
  show "parseOptions ''tag:5,explicit'' = Inr (Some ?o5)" by (rule parse_examples)
  have ev: "encodeValue enc ctx ?v ?o5 = Some (Inr ?inner)" for enc
    using a by (simp add: encodeValue_int zeroRawValue_def const_defs)
  show "encodeValue (encode (Suc n) ctx) ctx ?v ?o5 = Some (Inr ?inner)" by (rule ev)
  have f: "optional ?o5 = False" "defaultValue ?o5 = None" "explicit ?o5" "tag ?o5 = Some 5"
     "\<not> set_opt ?o5" "choice ?o5 = None" "\<not> application ?o5" "\<not> universal ?o5"
     "\<not> indefinite ?o5"
    by (simp_all add: zeroOptions_def)
  have ao: "applyOptions (Suc n) ctx ?v ?inner ?o5 =
     Some (Inr \<lparr> Class = classContextSpecific, Tag = 5, Constructed = True,
                         Indefinite = False, Content = inner \<rparr>)"
    unfolding applyOptions_steps [of n ctx ?v ?inner ?o5]
    using a
    by (simp add: applyOptions_plain f applyExplicit_def applyTag_def applyIndefinite_def
          rawValue_encode_def zeroRawValue_def uint_of_int_def del: applyOptions.simps)
  show "encode (Suc (Suc n)) ctx ?v ?o5 =
        Some (Inr (Some \<lparr> Class = classContextSpecific, Tag = 5, Constructed = True,
                         Indefinite = False, Content = inner \<rparr>))"
    by (simp add: substituteDefault_def f ev ao del: applyOptions.simps)
qed

theorem explicit_wraps_serialized_node_witness:
  "applyOptions (Suc 0) (exampleContext False) (VInt intType 7)
      \<lparr> Class = classUniversal, Tag = 2, Constructed = False, Indefinite = False, Content = [0x07] \<rparr>
      (zeroOptions\<lparr>tag := Some 5, explicit := True, application := True\<rparr>) =
     Some (Inr \<lparr> Class = classApplication, Tag = 5, Constructed = True, Indefinite = False,
                 Content = [0x02, 0x01, 0x07] \<rparr>)
   \<and> encode (Suc (Suc 0)) (exampleContext False) (VInt intType 7)
      (zeroOptions\<lparr>tag := Some 5, explicit := True\<rparr>) =
     Some (Inr (Some \<lparr> Class = classContextSpecific, Tag = 5, Constructed = True,
                       Indefinite = False, Content = [0x02, 0x01, 0x07] \<rparr>))"
  using explicit_wraps_serialized_node [where opts = "zeroOptions\<lparr>tag := Some 5, explicit := True, application := True\<rparr>"
      and t = 5 and ctx = "exampleContext False"
      and raw = "\<lparr> Class = classUniversal, Tag = 2, Constructed = False, Indefinite = False, Content = [0x07] \<rparr>"
      and current = "\<lparr> Class = classUniversal, Tag = 2, Constructed = False, Indefinite = False, Content = [0x07] \<rparr>"
      and bytes = "[0x02, 0x01, 0x07]" and n = 0 and v = "VInt intType 7"
      and nm = "''int''" and e = KInvalid and inner = "[0x02, 0x01, 0x07]"]
  by (simp add: fixture_defs const_defs zeroOptions_def uint_of_int_def setAndChoice_def
        apply_defs del: encode.simps)

section \<open>Defaults and optional values\<close>

lemma substituteDefault_der:
  "der_encoding ctx \<or> defaultValue opts = None \<Longrightarrow>
   substituteDefault ctx v opts = Inr (getActualType v, isEmpty (getActualType v))"
  by (auto simp: substituteDefault_def Let_def)


lemma substituteDefault_ber:
  "defaultValue opts = Some D \<Longrightarrow> isEmpty (getActualType v) \<Longrightarrow> \<not> der_encoding ctx \<Longrightarrow>
   typeOf (getActualType v) = Inr t \<Longrightarrow>
   substituteDefault ctx v opts =
     (case newDefaultValue ctx t opts of Inl err \<Rightarrow> Inl err | Inr d \<Rightarrow> Inr (d, False))"
  by (simp add: substituteDefault_def Let_def)

lemma encode_node_not_absent:
  "bindF (encodeValue enc ctx d opts) (\<lambda>raw.
     bindF (applyOptions n ctx d raw opts) (\<lambda>raw'. Some (Inr (Some raw')))) \<noteq> Some (Inr None)"
  by (auto simp: bindF_succeeds)

text \<open>
  Claim C1, as stated, fails: in BER mode an empty value under \<^verbatim>\<open>default:D\<close> does not
  always yield a node. Under \<^verbatim>\<open>default:5,explicit\<close> the default 5 is substituted and
  the \<^verbatim>\<open>explicit\<close> step then rejects the missing tag; and for an empty string the
  context of the example constructs no default and its error is returned.
\<close>

theorem default_does_not_always_yield_node:
  "encode (Suc (Suc 0)) (exampleContext False) (VInt intType 0)
       (zeroOptions\<lparr>defaultValue := Some 5, explicit := True\<rparr>)
     = Some (Inl (SyntaxError ''invalid flag explicit without tag on Go type''))
   \<and> encode (Suc (Suc 0)) (exampleContext False) (VString stringType [])
       (zeroOptions\<lparr>defaultValue := Some 5\<rparr>)
     = Some (Inl (SyntaxError ''default value is only allowed to integers''))"
  by (simp add: encode_defs select_defs apply_defs fixture_defs const_defs)

text \<open>
  Claim C1, amended. Take a value that equals the zero value of its type, under a
  directive set with \<^verbatim>\<open>default:D\<close>. In DER mode \<^verbatim>\<open>encode\<close> returns the absent result:
  no node. In BER mode the context constructs the default value afresh for the type of the
  value, and \<^verbatim>\<open>encode\<close> encodes it in place of the value: an error of the construction,
  of the content encoding or of the post-processing of the default is returned, and when
  the three succeed the result is the node that encodes the default under the same
  directives, never the absent result. For a signed integer type whose default has a
  content encoding, under \<^verbatim>\<open>default:D\<close> alone, the result is the universal INTEGER node
  with that content, for every budget of two calls or more.
\<close>

theorem default_substituted_in_ber_omitted_in_der:
  assumes "defaultValue opts = Some D" and "isEmpty (getActualType v)"
  shows "(der_encoding ctx \<longrightarrow> encode (Suc n) ctx v opts = Some (Inr None))
     \<and> (\<not> der_encoding ctx \<and> typeOf (getActualType v) = Inr t \<longrightarrow>
          (newDefaultValue ctx t opts = Inl err \<longrightarrow> encode (Suc n) ctx v opts = Some (Inl err))
        \<and> (newDefaultValue ctx t opts = Inr d \<longrightarrow>
             encode (Suc n) ctx v opts \<noteq> Some (Inr None)
           \<and> (encodeValue (encode n ctx) ctx d opts = Some (Inl err) \<longrightarrow>
                encode (Suc n) ctx v opts = Some (Inl err))
           \<and> (encodeValue (encode n ctx) ctx d opts = Some (Inr raw) \<longrightarrow>
                (applyOptions n ctx d raw opts = Some (Inl err) \<longrightarrow>
                   encode (Suc n) ctx v opts = Some (Inl err))
              \<and> (applyOptions n ctx d raw opts = Some (Inr node) \<longrightarrow>
                   encode (Suc n) ctx v opts = Some (Inr (Some node))))))
     \<and> (\<not> der_encoding ctx \<and> typeOf (getActualType v) = Inr (OtherType nm KInt ek)
          \<and> opts = zeroOptions\<lparr>defaultValue := Some D\<rparr>
          \<and> newDefaultValue ctx (OtherType nm KInt ek) opts = Inr (VInt (OtherType nm KInt ek) D)
          \<and> primitiveEncoder ctx EncodeInt (VInt (OtherType nm KInt ek) D) = Inr content \<longrightarrow>
          encode (Suc (Suc m)) ctx v opts =
            Some (Inr (Some \<lparr> Class = classUniversal, Tag = tagInteger, Constructed = False,
                              Indefinite = False, Content = content \<rparr>)))"
proof -
  have der: "encode (Suc n) ctx v opts = Some (Inr None)" if "der_encoding ctx"
    using that assms by (simp add: substituteDefault_der)
  have ber: "encode (Suc k) ctx v opts =
      (case newDefaultValue ctx t' opts of
         Inl err \<Rightarrow> Some (Inl err)
       | Inr d \<Rightarrow> bindF (encodeValue (encode k ctx) ctx d opts) (\<lambda>raw.
                  bindF (applyOptions k ctx d raw opts) (\<lambda>raw'. Some (Inr (Some raw')))))"
    if "\<not> der_encoding ctx" "typeOf (getActualType v) = Inr t'" for k t'
    using that assms
    by (cases "newDefaultValue ctx t' opts") (simp_all add: substituteDefault_ber)
  have general: "(newDefaultValue ctx t opts = Inl err \<longrightarrow> encode (Suc n) ctx v opts = Some (Inl err))
        \<and> (newDefaultValue ctx t opts = Inr d \<longrightarrow>
             encode (Suc n) ctx v opts \<noteq> Some (Inr None)
           \<and> (encodeValue (encode n ctx) ctx d opts = Some (Inl err) \<longrightarrow>
                encode (Suc n) ctx v opts = Some (Inl err))
           \<and> (encodeValue (encode n ctx) ctx d opts = Some (Inr raw) \<longrightarrow>
                (applyOptions n ctx d raw opts = Some (Inl err) \<longrightarrow>
                   encode (Suc n) ctx v opts = Some (Inl err))
              \<and> (applyOptions n ctx d raw opts = Some (Inr node) \<longrightarrow>
                   encode (Suc n) ctx v opts = Some (Inr (Some node)))))"
    if h: "\<not> der_encoding ctx \<and> typeOf (getActualType v) = Inr t"
  proof -
    from h have b: "encode (Suc n) ctx v opts =
      (case newDefaultValue ctx t opts of
         Inl err \<Rightarrow> Some (Inl err)
       | Inr d \<Rightarrow> bindF (encodeValue (encode n ctx) ctx d opts) (\<lambda>raw.
                  bindF (applyOptions n ctx d raw opts) (\<lambda>raw'. Some (Inr (Some raw')))))"
      by (intro ber) simp_all
    show ?thesis
      unfolding b using encode_node_not_absent [of "encode n ctx" ctx d opts n]
      by (auto simp del: encode.simps applyOptions.simps)
  qed
  have int: "encode (Suc (Suc m)) ctx v opts =
            Some (Inr (Some \<lparr> Class = classUniversal, Tag = tagInteger, Constructed = False,
                              Indefinite = False, Content = content \<rparr>))"
    if h: "\<not> der_encoding ctx \<and> typeOf (getActualType v) = Inr (OtherType nm KInt ek)
          \<and> opts = zeroOptions\<lparr>defaultValue := Some D\<rparr>
          \<and> newDefaultValue ctx (OtherType nm KInt ek) opts = Inr (VInt (OtherType nm KInt ek) D)
          \<and> primitiveEncoder ctx EncodeInt (VInt (OtherType nm KInt ek) D) = Inr content"
  proof -
    let ?d = "VInt (OtherType nm KInt ek) D"
    from h have nb: "\<not> der_encoding ctx"
      and ty: "typeOf (getActualType v) = Inr (OtherType nm KInt ek)"
      and nd: "newDefaultValue ctx (OtherType nm KInt ek) opts = Inr ?d"
      and pe: "primitiveEncoder ctx EncodeInt ?d = Inr content"
      and oo: "opts = zeroOptions\<lparr>defaultValue := Some D\<rparr>"
      by blast+
    have b: "encode (Suc (Suc m)) ctx v opts =
        bindF (encodeValue (encode (Suc m) ctx) ctx ?d opts) (\<lambda>raw.
        bindF (applyOptions (Suc m) ctx ?d raw opts) (\<lambda>raw'. Some (Inr (Some raw'))))"
      unfolding ber [OF nb ty] nd by (simp only: sum.case)
    have ev: "encodeValue (encode (Suc m) ctx) ctx ?d opts =
        Some (Inr (zeroRawValue\<lparr>Tag := tagInteger, Content := content\<rparr>))"
      using pe by (rule encodeValue_int)
    have o: "\<not> set_opt opts" "choice opts = None" "\<not> explicit opts" "tag opts = None"
        "\<not> universal opts" "\<not> application opts" "\<not> indefinite opts"
      by (simp_all add: oo zeroOptions_def)
    have ao: "applyOptions (Suc m) ctx ?d r opts = Some (Inr r)" for r
      using o by (simp add: apply_defs)
    show ?thesis unfolding b ev
      by (simp add: ao zeroRawValue_def const_defs del: applyOptions.simps)
  qed
  show ?thesis using der general int by blast
qed


theorem default_substituted_in_ber_omitted_in_der_witness:
  "encode (Suc 0) (exampleContext True) (VInt intType 0) (zeroOptions\<lparr>defaultValue := Some 5\<rparr>)
     = Some (Inr None)
   \<and> encode (Suc (Suc 0)) (exampleContext False) (VInt intType 0)
       (zeroOptions\<lparr>defaultValue := Some 5\<rparr>)
     = Some (Inr (Some \<lparr> Class = classUniversal, Tag = tagInteger, Constructed = False,
                        Indefinite = False, Content = [0x05] \<rparr>))"
  using default_substituted_in_ber_omitted_in_der [where opts = "zeroOptions\<lparr>defaultValue := Some 5\<rparr>" and D = 5
      and v = "VInt intType 0" and ctx = "exampleContext True" and n = 0]
    default_substituted_in_ber_omitted_in_der [where opts = "zeroOptions\<lparr>defaultValue := Some 5\<rparr>" and D = 5
      and v = "VInt intType 0" and ctx = "exampleContext False" and m = 0
      and nm = "''int''" and ek = KInvalid and content = "[0x05]"]
  by (simp add: fixture_defs zeroOptions_def del: encode.simps)




lemmas struct_defs = encodeStruct_def encodeStructAsSet_def getRawValuesFromFields_def
  structFields_def fieldChildren_def isFieldExported_def sortRawValues_def sort_Sort_def
  insertionSort_def rawValueSlice_Less_def presentNodes_def





section \<open>Variant fields\<close>

lemma variantFieldOptions_literal:
  assumes "markedUnique f \<longrightarrow> value_String (snd (snd f)) = []"
  shows "variantFieldOptions ctx name [] f =
     (case parseOptions (fst (snd f)) of
        Inl err \<Rightarrow> Inl err
      | Inr None \<Rightarrow> Inl (Panic ''nil pointer dereference'')
      | Inr (Some opt) \<Rightarrow> Inr (opt, []))"
  using assms
  by (auto simp: variantFieldOptions_def markedUnique_def split: sum.splits option.splits)

lemma variantLoop_literal_prefix:
  assumes "\<forall>f \<in> set pre. markedUnique f \<longrightarrow> value_String (snd (snd f)) = []"
  shows "variantLoop enc ctx name [] (pre @ rest) =
     bindF (literalFields (encodeSubField enc ctx) pre) (\<lambda>a.
     bindF (variantLoop enc ctx name [] rest) (\<lambda>b. Some (Inr (a @ b))))"
  using assms
proof (induction pre)
  case Nil
  show ?case by simp
next
  case (Cons f pre)
  then have f: "markedUnique f \<longrightarrow> value_String (snd (snd f)) = []"
    and IH: "variantLoop enc ctx name [] (pre @ rest) =
     bindF (literalFields (encodeSubField enc ctx) pre) (\<lambda>a.
     bindF (variantLoop enc ctx name [] rest) (\<lambda>b. Some (Inr (a @ b))))"
    by simp_all
  show ?case
  proof (cases "parseOptions (fst (snd f))")
    case (Inl err)
    then show ?thesis by (simp add: variantFieldOptions_literal [OF f])
  next
    case (Inr parsed)
    show ?thesis
    proof (cases parsed)
      case None
      with Inr show ?thesis by (simp add: variantFieldOptions_literal [OF f])
    next
      case (Some opt)
      with Inr show ?thesis
        by (simp add: variantFieldOptions_literal [OF f] IH bindF_assoc)
    qed
  qed
qed

lemma variantLoop_lookup:
  "d \<noteq> [] \<Longrightarrow> variantLoop enc ctx name d fs = lookupFields (encodeSubField enc ctx) ctx name d fs"
proof (induction fs)
  case Nil
  show ?case by simp
next
  case (Cons f fs)
  then show ?case
    by (cases "getVariant ctx name d (fst f)") (simp_all add: variantFieldOptions_def)
qed

lemma literalFields_snoc:
  assumes "parseOptions (fst (snd u)) = Inr (Some ou)"
  shows "literalFields (encodeSubField enc ctx) (pre @ [u]) =
      bindF (literalFields (encodeSubField enc ctx) pre) (\<lambda>a.
      bindF (encodeSubField enc ctx u ou) (\<lambda>raw. Some (Inr (a @ [raw]))))"
proof (induction pre)
  case Nil
  show ?case using assms by simp
next
  case (Cons f pre)
  show ?case
  proof (cases "parseOptions (fst (snd f))")
    case (Inl err)
    then show ?thesis by simp
  next
    case (Inr parsed)
    then show ?thesis by (cases parsed) (simp_all add: Cons bindF_assoc)
  qed
qed


text \<open>
  Claim C5, amended. The sub-fields of a variant field are visited in declaration order.
  The first sub-field whose own directive marks it \<^verbatim>\<open>unique\<close> and whose string form is
  not empty records that string as the discriminant. The sub-fields before it and the
  unique sub-field itself are encoded under their own literal directives; every sub-field
  after it is encoded under the options of the variant table for the table name, the
  discriminant and the sub-field's name.
\<close>

theorem variant_discriminant_selects_lookup:
  assumes pre: "\<forall>f \<in> set pre. markedUnique f \<longrightarrow> value_String (snd (snd f)) = []"
    and u: "parseOptions (fst (snd u)) = Inr (Some ou)" "unique ou"
    and d: "value_String (snd (snd u)) = d" "d \<noteq> []"
  shows "variantLoop enc ctx name [] (pre @ u # post) =
     bindF (literalFields (encodeSubField enc ctx) (pre @ [u])) (\<lambda>a.
     bindF (lookupFields (encodeSubField enc ctx) ctx name d post) (\<lambda>b. Some (Inr (a @ b))))"
proof -
  have step: "variantLoop enc ctx name [] (u # post) =
      bindF (encodeSubField enc ctx u ou) (\<lambda>raw.
      bindF (lookupFields (encodeSubField enc ctx) ctx name d post) (\<lambda>b. Some (Inr (raw # b))))"
    using u d by (simp add: variantFieldOptions_def variantLoop_lookup)
  show ?thesis
    unfolding variantLoop_literal_prefix [OF pre] step literalFields_snoc [OF u(1)]
    by (simp add: bindF_assoc)
qed


lemma markedUnique_examples:
  "markedUnique (''Kind'', ''unique'', v)" "\<not> markedUnique (''Body'', ''tag:2'', v)"
  "\<not> markedUnique (''Version'', [], v)"
  by (simp_all add: markedUnique_def parse_defs zeroOptions_def)


text \<open>
  Claim C5, as stated, fails when the string form of the unique sub-field is empty: the
  sub-field \<^verbatim>\<open>Body\<close> after it is encoded under its own directive \<^verbatim>\<open>tag:2\<close>, where
  the variant table has no entry for the empty discriminant and a lookup would fail.
\<close>

theorem empty_discriminant_keeps_literal_directives:
  "variantLoop (encode (Suc (Suc 0)) (exampleContext False)) (exampleContext False) ''V'' []
     [(''Kind'', ''unique'', VString stringType []), (''Body'', ''tag:2'', VInt intType 7)] =
   Some (Inr [Some \<lparr> Class = classUniversal, Tag = tagOctetString, Constructed = False,
                     Indefinite = False, Content = [] \<rparr>,
              Some \<lparr> Class = classContextSpecific, Tag = 2, Constructed = False,
                     Indefinite = False, Content = [0x07] \<rparr>])
   \<and> lookupFields (encodeSubField (encode (Suc (Suc 0)) (exampleContext False)) (exampleContext False))
       (exampleContext False) ''V''
       (value_String (VString stringType [])) [(''Body'', ''tag:2'', VInt intType 7)] =
     Some (Inl (LookupError ''variant not found''))"
  by (simp add: variantFieldOptions_def parse_examples encode_defs select_defs apply_defs
        fixture_defs const_defs encodeSubField_def isFieldExported_def)

theorem variant_discriminant_selects_lookup_witness:
  "variantLoop (encode (Suc (Suc 0)) (exampleContext False)) (exampleContext False) ''V'' []
     [(''Version'', [], VInt intType 1), (''Kind'', ''unique'', VString stringType ''a''),
      (''Body'', ''tag:2'', VInt intType 7)] =
   Some (Inr [Some \<lparr> Class = classUniversal, Tag = tagInteger, Constructed = False,
                     Indefinite = False, Content = [0x01] \<rparr>,
              Some \<lparr> Class = classUniversal, Tag = tagOctetString, Constructed = False,
                     Indefinite = False, Content = [0x61] \<rparr>,
              Some \<lparr> Class = classContextSpecific, Tag = 1, Constructed = False,
                     Indefinite = False, Content = [0x07] \<rparr>])"
  using variant_discriminant_selects_lookup [where pre = "[(''Version'', [], VInt intType 1)]"
      and u = "(''Kind'', ''unique'', VString stringType ''a'')"
      and ou = "zeroOptions\<lparr>unique := True\<rparr>" and d = "''a''"
      and post = "[(''Body'', ''tag:2'', VInt intType 7)]"
      and enc = "encode (Suc (Suc 0)) (exampleContext False)" and ctx = "exampleContext False"
      and name = "''V''"]
  by (simp add: markedUnique_examples parse_examples encode_defs select_defs apply_defs
        fixture_defs const_defs encodeSubField_def isFieldExported_def)

text \<open>
  The inner loop hands every sub-field to \<^verbatim>\<open>encode\<close>, exported or not, and a sub-field
  that is not exported makes it panic.
\<close>

lemma variantLoop_unexported_panics:
  "variantLoop (encode (Suc (Suc 0)) (exampleContext False)) (exampleContext False) ''V'' []
     [(''kind'', [], VInt intType 1)] =
   Some (Inl (Panic ''reflect.Value.Interface: value obtained from unexported field''))"
  by (simp add: variantFieldOptions_def parse_examples encodeSubField_def isFieldExported_def
        fixture_defs)

section \<open>Sequences of choices\<close>





































section \<open>Structs as sets\<close>


lemma Less_key: "rawValueSlice_Less a b \<longleftrightarrow> nodeKey a < nodeKey b"
  by (auto simp: rawValueSlice_Less_def nodeKey_def less_prod_def)

lemma mset_sink: "mset (sink x front) = add_mset x (mset front)"
  by (induction front) simp_all

lemma set_sink: "set (sink x front) = insert x (set front)"
  by (induction front) auto

lemma sorted_sink:
  "sorted_wrt (\<lambda>a b. nodeKey b \<le> nodeKey a) front \<Longrightarrow>
   sorted_wrt (\<lambda>a b. nodeKey b \<le> nodeKey a) (sink x front)"
proof (induction front)
  case Nil
  show ?case by simp
next
  case (Cons y front)
  then show ?case by (auto simp: Less_key set_sink)
qed

lemma foldl_sink:
  "mset (foldl (\<lambda>front x. sink x front) front xs) = mset front + mset xs"
  "sorted_wrt (\<lambda>a b. nodeKey b \<le> nodeKey a) front \<Longrightarrow>
   sorted_wrt (\<lambda>a b. nodeKey b \<le> nodeKey a) (foldl (\<lambda>front x. sink x front) front xs)"
  by (induction xs arbitrary: front) (simp_all add: mset_sink sorted_sink)

lemma insertionSort_sorts:
  "mset (insertionSort xs) = mset xs"
  "sorted (map nodeKey (insertionSort xs))"
proof -
  show "mset (insertionSort xs) = mset xs"
    by (simp add: insertionSort_def foldl_sink(1))
  have "sorted_wrt (\<lambda>a b. nodeKey b \<le> nodeKey a) (foldl (\<lambda>front x. sink x front) [] xs)"
    by (rule foldl_sink(2)) simp
  then show "sorted (map nodeKey (insertionSort xs))"
    by (simp add: insertionSort_def sorted_map sorted_wrt_rev)
qed

lemma filter_sink:
  "filter (\<lambda>z. nodeKey z = k) (sink x front) =
     filter (\<lambda>z. nodeKey z = k) (x # front)"
proof (induction front)
  case Nil
  show ?case by simp
next
  case (Cons y front)
  then show ?case by (auto simp: Less_key)
qed

lemma filter_foldl_sink:
  "filter (\<lambda>z. nodeKey z = k) (rev (foldl (\<lambda>front x. sink x front) front xs)) =
     filter (\<lambda>z. nodeKey z = k) (rev front @ xs)"
proof (induction xs arbitrary: front)
  case Nil
  show ?case by simp
next
  case (Cons x xs)
  have "filter (\<lambda>z. nodeKey z = k) (rev (sink x front)) =
      filter (\<lambda>z. nodeKey z = k) (rev (x # front))"
    unfolding rev_filter [symmetric] filter_sink ..
  then show ?case by (simp add: Cons)
qed

lemma insertionSort_stable:
  "filter (\<lambda>z. nodeKey z = k) (insertionSort xs) = filter (\<lambda>z. nodeKey z = k) xs"
  using filter_foldl_sink [of k "[]" xs] by (simp add: insertionSort_def)

lemma sorted_wrt_Less: "sorted_wrt (\<lambda>a b. \<not> rawValueSlice_Less b a) xs = sorted (map nodeKey xs)"
  by (simp add: sorted_map Less_key not_less)

lemma sortsByLess_insertionSort: "sortsByLess insertionSort"
  by (simp add: sortsByLess_def sorted_wrt_Less insertionSort_sorts)

lemma sort_Sort_sorts:
  assumes "sortsByLess (sortLong ctx)"
  shows "mset (sort_Sort ctx xs) = mset xs" and "sorted (map nodeKey (sort_Sort ctx xs))"
  using assms
  by (auto simp: sort_Sort_def insertionSort_sorts sortsByLess_def sorted_wrt_Less)

lemma sorted_distinct_keys_unique:
  assumes "sorted (map nodeKey xs)" "sorted (map nodeKey ys)" "mset xs = mset ys"
    "distinct (map nodeKey xs)"
  shows "xs = ys"
proof -
  have m: "mset (map nodeKey xs) = mset (map nodeKey ys)" using assms(3) by simp
  then have d: "distinct (map nodeKey ys)"
    using assms(4) by (metis mset_eq_imp_distinct_iff)
  have s: "set (map nodeKey xs) = set (map nodeKey ys)" using m by (rule mset_eq_setD)
  have e: "map nodeKey xs = map nodeKey ys"
    using assms(1) assms(4) assms(2) d s by (rule sorted_distinct_set_unique)
  have "set ys = set xs" using assms(3) by (metis mset_eq_setD)
  moreover have "inj_on nodeKey (set xs)" using assms(4) by (simp add: distinct_map)
  ultimately have "inj_on nodeKey (set xs \<union> set ys)" by simp
  with e show ?thesis by (rule map_inj_on)
qed


lemma fieldsLoop_Cons_succeeds:
  "fieldsLoop enc ctx (f # fs) = Some (Inr cs) \<longleftrightarrow>
     (\<exists>c rest. fieldChildren enc ctx f = Some (Inr c)
        \<and> fieldsLoop enc ctx fs = Some (Inr rest) \<and> cs = c @ rest)"
  by (auto simp: bindF_succeeds)

lemma fieldsLoop_children:
  assumes "fieldsLoop enc ctx fs = Some (Inr cs)"
    and "\<And>f. g f = (case fieldChildren enc ctx f of Some (Inr c) \<Rightarrow> c | _ \<Rightarrow> [])"
  shows "(\<forall>f \<in> set fs. fieldChildren enc ctx f = Some (Inr (g f))) \<and> cs = concat (map g fs)"
  using assms(1)
proof (induction fs arbitrary: cs)
  case Nil
  then show ?case by simp
next
  case (Cons f fs)
  from Cons.prems obtain c rest where c: "fieldChildren enc ctx f = Some (Inr c)"
    and r: "fieldsLoop enc ctx fs = Some (Inr rest)" and cs: "cs = c @ rest"
    unfolding fieldsLoop_Cons_succeeds by blast
  from c have "g f = c" by (simp add: assms(2))
  with Cons.IH [OF r] c cs show ?case by simp
qed

lemma fieldsLoop_all:
  assumes "\<forall>f \<in> set fs. fieldChildren enc ctx f = Some (Inr (g f))"
  shows "fieldsLoop enc ctx fs = Some (Inr (concat (map g fs)))"
  using assms by (induction fs) simp_all

lemma mset_concat_map:
  "mset xs = mset ys \<Longrightarrow> mset (concat (map g xs)) = mset (concat (map g ys))"
proof -
  assume a: "mset xs = mset ys"
  have "mset (concat (map g zs)) = sum_mset (image_mset (\<lambda>z. mset (g z)) (mset zs))" for zs
    by (induction zs) simp_all
  with a show ?thesis by simp
qed

lemma fieldsLoop_permuted:
  assumes "mset fs' = mset fs" and "fieldsLoop enc ctx fs = Some (Inr cs)"
  shows "\<exists>cs'. fieldsLoop enc ctx fs' = Some (Inr cs') \<and> mset cs' = mset cs"
proof -
  define g where "g f = (case fieldChildren enc ctx f of Some (Inr c) \<Rightarrow> c | _ \<Rightarrow> [])" for f
  from fieldsLoop_children [OF assms(2), of g]
  have a: "\<forall>f \<in> set fs. fieldChildren enc ctx f = Some (Inr (g f))"
    and c: "cs = concat (map g fs)"
    by (simp_all add: g_def)
  from assms(1) have "set fs' = set fs" by (rule mset_eq_setD)
  with a have "\<forall>f \<in> set fs'. fieldChildren enc ctx f = Some (Inr (g f))" by simp
  then have "fieldsLoop enc ctx fs' = Some (Inr (concat (map g fs')))" by (rule fieldsLoop_all)
  moreover have "mset (concat (map g fs')) = mset cs"
    unfolding c using assms(1) by (rule mset_concat_map)
  ultimately show ?thesis by blast
qed

lemma presentNodes_all:
  "None \<notin> set children \<Longrightarrow> map Some (presentNodes children) = children"
proof (induction children)
  case Nil
  show ?case by (simp add: presentNodes_def)
next
  case (Cons c children)
  then show ?case by (cases c) (simp_all add: presentNodes_def)
qed

lemma sortRawValues_present:
  assumes "None \<notin> set children"
  shows "sortRawValues ctx children = Inr (map Some (sort_Sort ctx (presentNodes children)))"
proof (cases "length children \<le> 1")
  case False
  with assms show ?thesis by (simp add: sortRawValues_def)
next
  case True
  then have "children = [] \<or> (\<exists>c. children = [c])"
    by (cases children) (auto simp: Suc_le_eq)
  with assms have "children = [] \<or> (\<exists>r. children = [Some r])"
    by (cases "hd children") auto
  then have "sort_Sort ctx (presentNodes children) = presentNodes children"
    by (auto simp: sort_Sort_def insertionSort_def presentNodes_def)
  with True assms show ?thesis by (simp add: sortRawValues_def presentNodes_all)
qed


lemma length_presentNodes:
  "None \<notin> set children \<Longrightarrow> length (presentNodes children) = length children"
  using presentNodes_all [of children] by (metis length_map)

lemma sort_Sort_short_or_sorting:
  assumes "length xs \<le> 6 \<or> sortsByLess (sortLong ctx)"
  shows "mset (sort_Sort ctx xs) = mset xs" and "sorted (map nodeKey (sort_Sort ctx xs))"
  using assms
  by (auto simp: sort_Sort_def insertionSort_sorts sortsByLess_def sorted_wrt_Less)

lemma encodeStructAsSet_der:
  assumes "der_encoding ctx" and "getRawValuesFromFields enc ctx v = Some (Inr children)"
    and "None \<notin> set children"
  shows "encodeStructAsSet enc ctx v =
           Some (encodeRawValues ctx (map Some (sort_Sort ctx (presentNodes children))))"
  using assms by (simp add: encodeStructAsSet_def sortRawValues_present)

lemma encodeStructAsSet_permuted:
  assumes der: "der_encoding ctx"
    and g: "getRawValuesFromFields enc ctx (VStruct ty fs) = Some (Inr children)"
    and p: "None \<notin> set children"
    and s: "length children \<le> 6 \<or> sortsByLess (sortLong ctx)"
    and d: "distinct (map nodeKey (presentNodes children))"
    and m: "mset fs' = mset fs"
  shows "encodeStructAsSet enc ctx (VStruct ty' fs') = encodeStructAsSet enc ctx (VStruct ty fs)"
proof -
  from g have l: "fieldsLoop enc ctx fs = Some (Inr children)"
    by (simp add: getRawValuesFromFields_def structFields_def)
  from fieldsLoop_permuted [OF m l] obtain cs'
    where l': "fieldsLoop enc ctx fs' = Some (Inr cs')" and mc: "mset cs' = mset children"
    by blast
  from l' have g': "getRawValuesFromFields enc ctx (VStruct ty' fs') = Some (Inr cs')"
    by (simp add: getRawValuesFromFields_def structFields_def)
  from mc have "set cs' = set children" by (rule mset_eq_setD)
  with p have p': "None \<notin> set cs'" by simp
  from mc have "length cs' = length children" by (rule mset_eq_length)
  with s have s': "length cs' \<le> 6 \<or> sortsByLess (sortLong ctx)" by simp
  have mp: "mset (presentNodes cs') = mset (presentNodes children)"
    unfolding presentNodes_def using mc by (rule mset_concat_map)
  let ?a = "sort_Sort ctx (presentNodes children)"
  let ?b = "sort_Sort ctx (presentNodes cs')"
  from s p have sa: "length (presentNodes children) \<le> 6 \<or> sortsByLess (sortLong ctx)"
    by (simp add: length_presentNodes)
  from s' p' have sb: "length (presentNodes cs') \<le> 6 \<or> sortsByLess (sortLong ctx)"
    by (simp add: length_presentNodes)
  have ma: "mset ?a = mset (presentNodes children)" and oa: "sorted (map nodeKey ?a)"
    using sa by (rule sort_Sort_short_or_sorting)+
  have mb: "mset ?b = mset (presentNodes cs')" and ob: "sorted (map nodeKey ?b)"
    using sb by (rule sort_Sort_short_or_sorting)+
  from ma have "mset (map nodeKey ?a) = mset (map nodeKey (presentNodes children))" by simp
  with d have da: "distinct (map nodeKey ?a)" by (metis mset_eq_imp_distinct_iff)
  from ma mb mp have "mset ?a = mset ?b" by simp
  with oa ob have "?a = ?b" using da by (rule sorted_distinct_keys_unique)
  then show ?thesis
    unfolding encodeStructAsSet_der [OF der g p] encodeStructAsSet_der [OF der g' p'] by simp
qed

lemma parse_tag_examples:
  "parseOptions ''tag:5'' = Inr (Some (zeroOptions\<lparr>tag := Some 5\<rparr>))"
  "parseOptions ''tag:3'' = Inr (Some (zeroOptions\<lparr>tag := Some 3\<rparr>))"
  by (simp_all add: parse_defs zeroOptions_def)

text \<open>
  Claim C2, as stated, fails. Sorting orders the children by (class, tag) only, and on up
  to six children it keeps children of equal (class, tag) in the order the fields gave
  them. So two field orders of the same field values need not give the same bytes in DER
  mode: with the integer fields \<^verbatim>\<open>A\<close> = 1 and \<^verbatim>\<open>B\<close> = 2, both of class universal and
  tag 2, the struct that declares \<^verbatim>\<open>A\<close> first encodes 1 before 2, and the struct that
  declares \<^verbatim>\<open>B\<close> first encodes 2 before 1.
\<close>

theorem permuted_set_fields_same_tag_differ:
  "encodeStructAsSet (encode (Suc (Suc 0)) (exampleContext True)) (exampleContext True)
       (VStruct (OtherType ''T'' KStruct KInvalid)
          [(''A'', [], VInt intType 1), (''B'', [], VInt intType 2)])
     = Some (Inr [0x02, 0x01, 0x01, 0x02, 0x01, 0x02])
   \<and> encodeStructAsSet (encode (Suc (Suc 0)) (exampleContext True)) (exampleContext True)
       (VStruct (OtherType ''T'' KStruct KInvalid)
          [(''B'', [], VInt intType 2), (''A'', [], VInt intType 1)])
     = Some (Inr [0x02, 0x01, 0x02, 0x02, 0x01, 0x01])"
  by (simp add: encode_defs select_defs apply_defs fixture_defs const_defs struct_defs
        parse_examples)

text \<open>
  Claim C2, amended. A struct whose type is none of the special types gets
  \<^verbatim>\<open>encodeStructAsSet\<close> as its content encoder when its options have \<^verbatim>\<open>set\<close>, and
  \<^verbatim>\<open>encodeStruct\<close> otherwise. In BER mode \<^verbatim>\<open>encodeStructAsSet\<close> returns what
  \<^verbatim>\<open>encodeStruct\<close> returns: the children are serialized in declaration order, unsorted.
  In DER mode, when the fields give their children without error and no child is absent,
  the content is the serialization, in sequence, of the sorted children. With at most six
  children, or when the library's sort on longer inputs does sort, the sorted children
  are the same nodes in ascending order of (class, tag); and if moreover no two children
  have the same (class, tag), every struct whose fields are a permutation of the fields
  of this one gives the same result. With at most six children the sort is stable: the
  children of any one (class, tag) keep their relative order.
\<close>

theorem set_children_sorted_in_der:
  "(kindOfType t = KStruct \<and> specialEncoder t = None \<longrightarrow>
      selectEncoder ctx t opts =
        Inr (zeroRawValue\<lparr>Tag := tagSequence, Constructed := True\<rparr>,
             Some (if set_opt opts then EncodeStructAsSet else EncodeStruct)))
   \<and> (\<not> der_encoding ctx \<longrightarrow> encodeStructAsSet enc ctx v = encodeStruct enc ctx v)
   \<and> (der_encoding ctx \<and> getRawValuesFromFields enc ctx v = Some (Inr children)
        \<and> None \<notin> set children \<longrightarrow>
        encodeStructAsSet enc ctx v =
          Some (encodeRawValues ctx (map Some (sort_Sort ctx (presentNodes children))))
      \<and> (length children \<le> 6 \<or> sortsByLess (sortLong ctx) \<longrightarrow>
           mset (sort_Sort ctx (presentNodes children)) = mset (presentNodes children)
         \<and> sorted (map nodeKey (sort_Sort ctx (presentNodes children)))
         \<and> (distinct (map nodeKey (presentNodes children)) \<and> v = VStruct ty fs
              \<and> mset fs' = mset fs \<longrightarrow>
              encodeStructAsSet enc ctx (VStruct ty' fs') = encodeStructAsSet enc ctx v))
      \<and> (length children \<le> 6 \<longrightarrow>
           filter (\<lambda>r. nodeKey r = k) (sort_Sort ctx (presentNodes children)) =
             filter (\<lambda>r. nodeKey r = k) (presentNodes children)))"
proof -
  have a: "selectEncoder ctx t opts =
        Inr (zeroRawValue\<lparr>Tag := tagSequence, Constructed := True\<rparr>,
             Some (if set_opt opts then EncodeStructAsSet else EncodeStruct))"
    if "kindOfType t = KStruct \<and> specialEncoder t = None"
    using that by (simp add: selectEncoder_def genericEncoder_def)
  have b: "encodeStructAsSet enc ctx v = encodeStruct enc ctx v" if "\<not> der_encoding ctx"
    using that by (simp add: encodeStructAsSet_def encodeStruct_def)
  have c: "encodeStructAsSet enc ctx v =
          Some (encodeRawValues ctx (map Some (sort_Sort ctx (presentNodes children))))
      \<and> (length children \<le> 6 \<or> sortsByLess (sortLong ctx) \<longrightarrow>
           mset (sort_Sort ctx (presentNodes children)) = mset (presentNodes children)
         \<and> sorted (map nodeKey (sort_Sort ctx (presentNodes children)))
         \<and> (distinct (map nodeKey (presentNodes children)) \<and> v = VStruct ty fs
              \<and> mset fs' = mset fs \<longrightarrow>
              encodeStructAsSet enc ctx (VStruct ty' fs') = encodeStructAsSet enc ctx v))
      \<and> (length children \<le> 6 \<longrightarrow>
           filter (\<lambda>r. nodeKey r = k) (sort_Sort ctx (presentNodes children)) =
             filter (\<lambda>r. nodeKey r = k) (presentNodes children))"
    if h: "der_encoding ctx \<and> getRawValuesFromFields enc ctx v = Some (Inr children)
        \<and> None \<notin> set children"
  proof -
    from h have der: "der_encoding ctx"
      and g: "getRawValuesFromFields enc ctx v = Some (Inr children)"
      and p: "None \<notin> set children" by simp_all
    have c1: "encodeStructAsSet enc ctx v =
          Some (encodeRawValues ctx (map Some (sort_Sort ctx (presentNodes children))))"
      using der g p by (rule encodeStructAsSet_der)
    have c2: "mset (sort_Sort ctx (presentNodes children)) = mset (presentNodes children)
         \<and> sorted (map nodeKey (sort_Sort ctx (presentNodes children)))
         \<and> (distinct (map nodeKey (presentNodes children)) \<and> v = VStruct ty fs
              \<and> mset fs' = mset fs \<longrightarrow>
              encodeStructAsSet enc ctx (VStruct ty' fs') = encodeStructAsSet enc ctx v)"
      if s: "length children \<le> 6 \<or> sortsByLess (sortLong ctx)"
    proof -
      from s p have sa: "length (presentNodes children) \<le> 6 \<or> sortsByLess (sortLong ctx)"
        by (simp add: length_presentNodes)
      have "encodeStructAsSet enc ctx (VStruct ty' fs') = encodeStructAsSet enc ctx v"
        if q: "distinct (map nodeKey (presentNodes children)) \<and> v = VStruct ty fs
              \<and> mset fs' = mset fs"
      proof -
        from q g have g0: "getRawValuesFromFields enc ctx (VStruct ty fs) = Some (Inr children)"
          by simp
        from q have "encodeStructAsSet enc ctx (VStruct ty' fs') =
            encodeStructAsSet enc ctx (VStruct ty fs)"
          using encodeStructAsSet_permuted [OF der g0 p s, of fs' ty'] by blast
        with q show ?thesis by simp
      qed
      with sort_Sort_short_or_sorting [OF sa] show ?thesis by blast
    qed
    have c3: "filter (\<lambda>r. nodeKey r = k) (sort_Sort ctx (presentNodes children)) =
             filter (\<lambda>r. nodeKey r = k) (presentNodes children)"
      if "length children \<le> 6"
      using that p by (simp add: sort_Sort_def length_presentNodes insertionSort_stable)
    from c1 c2 c3 show ?thesis by blast
  qed
  from a b c show ?thesis by blast
qed

theorem set_children_sorted_in_der_witness:
  "selectEncoder (exampleContext True) (OtherType ''T'' KStruct KInvalid)
       (zeroOptions\<lparr>set_opt := True\<rparr>)
     = Inr (zeroRawValue\<lparr>Tag := tagSequence, Constructed := True\<rparr>, Some EncodeStructAsSet)
   \<and> encodeStructAsSet (encode (Suc (Suc 0)) (exampleContext False)) (exampleContext False)
       (VStruct (OtherType ''T'' KStruct KInvalid)
          [(''A'', ''tag:5'', VInt intType 1), (''B'', ''tag:3'', VInt intType 2)])
     = Some (Inr [0x85, 0x01, 0x01, 0x83, 0x01, 0x02])
   \<and> encodeStructAsSet (encode (Suc (Suc 0)) (exampleContext True)) (exampleContext True)
       (VStruct (OtherType ''T'' KStruct KInvalid)
          [(''A'', ''tag:5'', VInt intType 1), (''B'', ''tag:3'', VInt intType 2)])
     = Some (Inr [0x83, 0x01, 0x02, 0x85, 0x01, 0x01])
   \<and> encodeStructAsSet (encode (Suc (Suc 0)) (exampleContext True)) (exampleContext True)
       (VStruct (OtherType ''U'' KStruct KInvalid)
          [(''B'', ''tag:3'', VInt intType 2), (''A'', ''tag:5'', VInt intType 1)])
     = Some (Inr [0x83, 0x01, 0x02, 0x85, 0x01, 0x01])"
  using set_children_sorted_in_der [where ctx = "exampleContext True"
      and t = "OtherType ''T'' KStruct KInvalid" and opts = "zeroOptions\<lparr>set_opt := True\<rparr>"
      and enc = "encode (Suc (Suc 0)) (exampleContext True)"
      and v = "VStruct (OtherType ''T'' KStruct KInvalid)
          [(''A'', ''tag:5'', VInt intType 1), (''B'', ''tag:3'', VInt intType 2)]"
      and children = "[Some (zeroRawValue\<lparr>Class := classContextSpecific, Tag := 5, Content := [0x01]\<rparr>),
                       Some (zeroRawValue\<lparr>Class := classContextSpecific, Tag := 3, Content := [0x02]\<rparr>)]"
      and ty = "OtherType ''T'' KStruct KInvalid"
      and fs = "[(''A'', ''tag:5'', VInt intType 1), (''B'', ''tag:3'', VInt intType 2)]"
      and ty' = "OtherType ''U'' KStruct KInvalid"
      and fs' = "[(''B'', ''tag:3'', VInt intType 2), (''A'', ''tag:5'', VInt intType 1)]"
      and k = "(classContextSpecific, 3)"]
    set_children_sorted_in_der [where ctx = "exampleContext False"
      and enc = "encode (Suc (Suc 0)) (exampleContext False)"
      and v = "VStruct (OtherType ''T'' KStruct KInvalid)
          [(''A'', ''tag:5'', VInt intType 1), (''B'', ''tag:3'', VInt intType 2)]"]
  by (simp add: encode_defs select_defs apply_defs fixture_defs const_defs struct_defs
        parse_tag_examples nodeKey_def)

end
